theory Spec2Isabelle
  imports Main
begin

section \<open>Go values, the machine and the observable trace\<close>

text \<open>
  \<open>src/main.go\<close> holds three revisions of the same program. The first one (lines 1-224) is
  modelled under the names of the source; the third one (lines 380-598) under the same names
  with the suffix \<open>_v3\<close>, wherever its text differs from the first. \<open>GetSoftwareStatus\<close>,
  \<open>InstallSoftware\<close>, \<open>UninstallSoftware\<close> and the three \<open>ExitWith...\<close> functions are
  literally the same in both and are modelled once. The second revision (lines 225-379) is
  the third one without its software stage and is not modelled.

  Go strings are byte strings: \<open>string\<close> (a list of 8-bit characters). The lexical syntax of
  string literals has no way of writing a backslash, so it is spelled \<open>BS\<close>.
\<close>

abbreviation BS :: char where "BS \<equiv> CHR 0x5C"
abbreviation NL :: char where "NL \<equiv> CHR 0x0A"

text \<open>
  Error values. \<open>Errno\<close> is \<open>syscall.Errno\<close>; \<open>registry.ErrNotExist\<close> is declared by the
  registry package as \<open>syscall.ERROR_FILE_NOT_FOUND\<close>, errno 2. \<open>Wrap\<close> stands for
  \<open>errors.Wrap\<close> and \<open>errors.Wrapf\<close> (the message already formatted), \<open>Errorf\<close> for
  \<open>errors.Errorf\<close>. \<open>==\<close> on Go error values is equality of this datatype.
\<close>

datatype go_error =
    Errno nat
  | OsErrNotExist
  | PathError string string go_error
  | OtherError string
  | Wrap go_error string
  | Errorf string

abbreviation (input) registry_ErrNotExist :: go_error where
  "registry_ErrNotExist \<equiv> Errno 2"

text \<open>The two structs of lines 12-24 (the \<open>XMLName\<close> fields are never read).\<close>

record DSACatalogGranulePick =
  PlatformType :: string
  MfgCode :: string
  SelectionState :: string

record DSACatalogState =
  UsingNetwork :: bool
  GranulePicks :: "DSACatalogGranulePick list"
  LastDiscLocation :: string

text \<open>
  The machine the program runs on. A file is represented by what the program can observe of
  it: either \<open>os.Open\<close> fails with an error, or it opens and \<open>xml.Decoder.Decode\<close> yields an
  error or a decoded \<open>DSACatalogState\<close>. A registry key either fails to open or gives, for
  each value name, the result of \<open>GetStringValue\<close>.
\<close>

datatype file_state =
    OpenFails go_error
  | Decodes "go_error + DSACatalogState"

type_synonym reg_key = "string \<Rightarrow> go_error + string"

record machine =
  files :: "string \<Rightarrow> file_state"
  registry :: "string \<Rightarrow> go_error + reg_key"

text \<open>Everything the program does to the outside world is recorded, in order.\<close>

datatype event =
    Printed string
  | Slept nat
  | Exec string "string list"
  | FileOpen string
  | RemoveAll string
  | KeyOpen string

record world =
  mach :: machine
  trace :: "event list"

text \<open>
  What the program cannot decide is a parameter: the effect and result of an external
  process (\<open>CombinedOutput\<close>, \<open>Run\<close>), the effect and result of \<open>os.RemoveAll\<close>, the
  comparison that \<open>strings.EqualFold\<close> makes once it meets a byte outside ASCII, and the
  text that \<open>%+v\<close> prints for an error. Every external process is taken to return.
\<close>

record env =
  run_process :: "string \<Rightarrow> string list \<Rightarrow> machine \<Rightarrow> (string \<times> go_error option) \<times> machine"
  remove_all :: "string \<Rightarrow> machine \<Rightarrow> go_error option \<times> machine"
  fold_unicode :: "string \<Rightarrow> string \<Rightarrow> bool"
  fmt_error :: "go_error \<Rightarrow> string"

definition emit :: "event \<Rightarrow> world \<Rightarrow> world" where
  "emit e w = w\<lparr>trace := trace w @ [e]\<rparr>"

definition Printf :: "string \<Rightarrow> world \<Rightarrow> world" where
  "Printf s w = emit (Printed s) w"

definition Println :: "string \<Rightarrow> world \<Rightarrow> world" where
  "Println s w = emit (Printed (s @ [NL])) w"

definition CombinedOutput :: "env \<Rightarrow> string \<Rightarrow> string list \<Rightarrow> world \<Rightarrow> (string \<times> go_error option) \<times> world" where
  "CombinedOutput en name args w =
     (case run_process en name args (mach w) of
        (r, m) \<Rightarrow> (r, (emit (Exec name args) w)\<lparr>mach := m\<rparr>))"

definition Run :: "env \<Rightarrow> string \<Rightarrow> string list \<Rightarrow> world \<Rightarrow> go_error option \<times> world" where
  "Run en name args w =
     (case CombinedOutput en name args w of ((out, err), w') \<Rightarrow> (err, w'))"

text \<open>The external commands of a trace, in order.\<close>

definition launched :: "event list \<Rightarrow> (string \<times> string list) list" where
  "launched tr = concat (map (\<lambda>e. case e of Exec n a \<Rightarrow> [(n, a)] | _ \<Rightarrow> []) tr)"

section \<open>strings.EqualFold\<close>

text \<open>
  The loop of \<open>strings.EqualFold\<close> over the common prefix: a byte of either string at or above
  \<open>utf8.RuneSelf\<close> (128) hands the two remaining suffixes to the Unicode comparison, here
  the parameter \<open>u\<close>; equal bytes continue; otherwise the smaller byte must be an upper-case
  letter and the larger one its lower-case form. After the loop the lengths must agree.
\<close>

fun EqualFold :: "(string \<Rightarrow> string \<Rightarrow> bool) \<Rightarrow> string \<Rightarrow> string \<Rightarrow> bool" where
  "EqualFold u (sr # s) (tr # t) =
     (if (128::nat) \<le> of_char sr \<or> (128::nat) \<le> of_char tr then u (sr # s) (tr # t)
      else if tr = sr then EqualFold u s t
      else if (65::nat) \<le> min (of_char sr) (of_char tr) \<and> min (of_char sr) (of_char tr) \<le> (90::nat)
              \<and> max (of_char sr) (of_char tr) = min (of_char sr) (of_char tr) + (32::nat)
           then EqualFold u s t
      else False)"
| "EqualFold u [] [] = True"
| "EqualFold u [] (tr # t) = False"
| "EqualFold u (sr # s) [] = False"

section \<open>Constants (lines 26-39)\<close>

definition CAP2020_CATALOG :: string where
  "CAP2020_CATALOG = ''SOFTWARE'' @ BS # ''WOW6432Node'' @ BS # ''Microsoft'' @ BS # ''Windows''
     @ BS # ''CurrentVersion'' @ BS # ''Uninstall'' @ BS # ''20-20 COMMERCIAL CATALOGS''"

definition CAP2020_SOFTWARE :: string where
  "CAP2020_SOFTWARE = ''SOFTWARE'' @ BS # ''WOW6432Node'' @ BS # ''Microsoft'' @ BS # ''Windows''
     @ BS # ''CurrentVersion'' @ BS # ''Uninstall'' @ BS # ''{5D4D912A-D5EE-4748-84B8-7C2C75EC4408}''"

definition CAP2020_SOFTWARE_CURRENT :: string where
  "CAP2020_SOFTWARE_CURRENT = ''13.00.13037''"

definition PATH_CATALOG :: string where
  "PATH_CATALOG = BS # BS # ''10.0.9.29'' @ BS # ''2020catalogbeta'' @ BS # ''ClientSetup'' @ BS # ''setup.exe''"

definition PATH_CATALOG_v3 :: string where
  "PATH_CATALOG_v3 = BS # BS # ''10.0.9.29'' @ BS # ''2020catalogbeta''"

definition PATH_SOFTWARE :: string where
  "PATH_SOFTWARE = BS # BS # ''10.0.9.29'' @ BS # ''2020software'' @ BS # ''Setup.exe''"

abbreviation (input) CATALOG_STATE_MISSNG :: int where "CATALOG_STATE_MISSNG \<equiv> 0"
abbreviation (input) CATALOG_STATE_LOCAL :: int where "CATALOG_STATE_LOCAL \<equiv> 1"
abbreviation (input) CATALOG_STATE_NETWORK :: int where "CATALOG_STATE_NETWORK \<equiv> 2"
abbreviation (input) CATALOG_STATE_INVALID :: int where "CATALOG_STATE_INVALID \<equiv> 3"

text \<open>The string literals that the functions below use more than once.\<close>

definition STATE_COOKIE :: string where
  "STATE_COOKIE = ''C:'' @ BS # ''ProgramData'' @ BS # ''2020'' @ BS # ''DSA'' @ BS # ''2020Catalogs-StateCookie.xml''"

definition DSA_DIR :: string where
  "DSA_DIR = ''C:'' @ BS # ''ProgramData'' @ BS # ''2020'' @ BS # ''DSA''"

definition DSA_EXE :: string where
  "DSA_EXE = ''C:'' @ BS # ''Program Files (x86)'' @ BS # ''2020'' @ BS # ''DSA'' @ BS # ''dsa.exe''"

definition NETWORK_LOCATION :: string where
  "NETWORK_LOCATION = BS # BS # ''10.0.9.29'' @ BS # ''2020catalogbeta'' @ BS # ''ClientSetup'' @ [BS]"

definition UNINSTALL_STRING :: string where
  "UNINSTALL_STRING = ''C:'' @ BS # ''Program Files (x86)'' @ BS # ''2020'' @ BS # ''DSA'' @ BS
     # ''dsa.exe /removeall /rootpath \"C:'' @ BS # ''ProgramData'' @ BS # ''2020'' @ BS # ''DSA\"''"

section \<open>Reading the state (lines 41-118)\<close>

text \<open>
  The loop of lines 58-64 (and 431-437): the first pick with \<open>MfgCode\<close> DMO, \<open>PlatformType\<close>
  CAP and \<open>SelectionState\<close> Selected ends the loop with a return.
\<close>

fun demo_selected :: "DSACatalogGranulePick list \<Rightarrow> bool" where
  "demo_selected [] = False"
| "demo_selected (g # gs) =
     (if MfgCode g = ''DMO'' \<and> PlatformType g = ''CAP'' \<and> SelectionState g = ''Selected''
      then True else demo_selected gs)"

text \<open>Lines 41-72. The result is the pair (state, error), \<open>None\<close> for \<open>nil\<close>.\<close>

definition GetCatalogStatus :: "env \<Rightarrow> world \<Rightarrow> (int \<times> go_error option) \<times> world" where
  "GetCatalogStatus en w =
     (let w1 = emit (FileOpen STATE_COOKIE) w in
      case files (mach w) STATE_COOKIE of
        OpenFails err \<Rightarrow> ((CATALOG_STATE_MISSNG, None), w1)
      | Decodes (Inl err) \<Rightarrow>
          ((CATALOG_STATE_INVALID, Some (Wrap err ''Cannot decode DSA state XML file'')), w1)
      | Decodes (Inr catalogstate) \<Rightarrow>
          if demo_selected (GranulePicks catalogstate) then ((CATALOG_STATE_LOCAL, None), w1)
          else if \<not> EqualFold (fold_unicode en) (LastDiscLocation catalogstate) NETWORK_LOCATION
          then ((CATALOG_STATE_INVALID, None),
                Printf (''Catalog Last Disc Location is incorrectly ''
                          @ LastDiscLocation catalogstate @ [NL]) w1)
          else ((CATALOG_STATE_NETWORK, None), w1))"

text \<open>Lines 412-440. The result is (installed, on network, error).\<close>

definition GetCatalogStatus_v3 :: "world \<Rightarrow> (bool \<times> bool \<times> go_error option) \<times> world" where
  "GetCatalogStatus_v3 w =
     (let w1 = emit (FileOpen STATE_COOKIE) w in
      case files (mach w) STATE_COOKIE of
        OpenFails err \<Rightarrow>
          if err = OsErrNotExist then ((False, False, None), w1)
          else ((False, False, Some (Wrap err ''Cannot open DSA state XML file'')), w1)
      | Decodes (Inl err) \<Rightarrow>
          ((False, False, Some (Wrap err ''Cannot decode DSA state XML file'')), w1)
      | Decodes (Inr catalogstate) \<Rightarrow>
          if demo_selected (GranulePicks catalogstate)
          then ((True, UsingNetwork catalogstate, None), w1)
          else ((False, UsingNetwork catalogstate, None), w1))"

text \<open>Lines 74-76.\<close>

definition CleanCatalog :: "env \<Rightarrow> world \<Rightarrow> go_error option \<times> world" where
  "CleanCatalog en w =
     (case remove_all en DSA_DIR (mach w) of
        (r, m) \<Rightarrow> (r, (emit (RemoveAll DSA_DIR) w)\<lparr>mach := m\<rparr>))"

text \<open>Lines 78-100: the comparison is \<open>strings.EqualFold\<close>.\<close>

definition UninstallCatalog :: "env \<Rightarrow> world \<Rightarrow> go_error option \<times> world" where
  "UninstallCatalog en w =
     (let w1 = emit (KeyOpen CAP2020_CATALOG) w in
      case registry (mach w) CAP2020_CATALOG of
        Inl err \<Rightarrow> (Some (Wrap err ''Cannot open registry key for uninstall''), w1)
      | Inr k \<Rightarrow>
         (case k ''UninstallString'' of
            Inl err \<Rightarrow> (Some (Wrap err ''Cannot read value UninstallString''), w1)
          | Inr v \<Rightarrow>
              if \<not> EqualFold (fold_unicode en) v UNINSTALL_STRING
              then (Some (Errorf (''UninstallString had an unexpected value of '' @ v)), w1)
              else
               (case CombinedOutput en DSA_EXE
                       [''/removeall'', ''/rootpath'', ''\"'' @ DSA_DIR @ ''\"''] w1 of
                  ((out, Some err), w2) \<Rightarrow> (Some (Wrap err (''Uninstall command output: '' @ out)), w2)
                | ((out, None), w2) \<Rightarrow> (None, w2))))"

text \<open>Lines 442-464: the comparison is \<open>!=\<close>.\<close>

definition UninstallCatalog_v3 :: "env \<Rightarrow> world \<Rightarrow> go_error option \<times> world" where
  "UninstallCatalog_v3 en w =
     (let w1 = emit (KeyOpen CAP2020_CATALOG) w in
      case registry (mach w) CAP2020_CATALOG of
        Inl err \<Rightarrow> (Some (Wrap err ''Cannot open registry key for uninstall''), w1)
      | Inr k \<Rightarrow>
         (case k ''UninstallString'' of
            Inl err \<Rightarrow> (Some (Wrap err ''Cannot read value UninstallString''), w1)
          | Inr v \<Rightarrow>
              if v \<noteq> UNINSTALL_STRING
              then (Some (Errorf (''UninstallString had an unexpected value of '' @ v)), w1)
              else
               (case CombinedOutput en DSA_EXE
                       [''/removeall'', ''/rootpath'', ''\"'' @ DSA_DIR @ ''\"''] w1 of
                  ((out, Some err), w2) \<Rightarrow> (Some (Wrap err (''Uninstall command output: '' @ out)), w2)
                | ((out, None), w2) \<Rightarrow> (None, w2))))"

text \<open>Lines 103-118 (and 467-482). The result is (installed, current, error).\<close>

definition GetSoftwareStatus :: "world \<Rightarrow> (bool \<times> bool \<times> go_error option) \<times> world" where
  "GetSoftwareStatus w =
     (let w1 = emit (KeyOpen CAP2020_SOFTWARE) w in
      case registry (mach w) CAP2020_SOFTWARE of
        Inl err \<Rightarrow>
          if err = registry_ErrNotExist then ((False, False, None), w1)
          else ((False, False, Some (Wrap err ''Cannot open registry key for software version'')), w1)
      | Inr k \<Rightarrow>
         (case k ''DisplayVersion'' of
            Inl err \<Rightarrow> ((False, False, Some (Wrap err ''Cannot read value DisplayVersion'')), w1)
          | Inr v \<Rightarrow> ((True, v = CAP2020_SOFTWARE_CURRENT, None), w1)))"

section \<open>Running the installers (lines 120-145, 484-516)\<close>

definition InstallNetworkCatalog :: "env \<Rightarrow> world \<Rightarrow> go_error option \<times> world" where
  "InstallNetworkCatalog en w =
     (case CombinedOutput en PATH_CATALOG [] w of
        ((out, Some err), w1) \<Rightarrow> (Some (Wrap err (''Setup command output: '' @ out)), w1)
      | ((out, None), w1) \<Rightarrow> (None, w1))"

definition InstallNetworkCatalog_v3 :: "env \<Rightarrow> world \<Rightarrow> go_error option \<times> world" where
  "InstallNetworkCatalog_v3 en w =
     (let w1 = snd (Run en ''net'' [''use'', ''A:'', ''/delete''] w) in
      case CombinedOutput en ''net'' [''use'', ''A:'', PATH_CATALOG_v3, ''/persistent:no''] w1 of
        ((out, Some err), w2) \<Rightarrow> (Some (Wrap err (''NET USE command output: '' @ out)), w2)
      | ((out, None), w2) \<Rightarrow>
         (case CombinedOutput en (''A:'' @ BS # ''ClientSetup'' @ BS # ''setup.exe'') [] w2 of
            ((out, Some err), w3) \<Rightarrow> (Some (Wrap err (''Setup command output: '' @ out)), w3)
          | ((out, None), w3) \<Rightarrow> (None, w3)))"

definition InstallSoftware :: "env \<Rightarrow> world \<Rightarrow> go_error option \<times> world" where
  "InstallSoftware en w =
     (case CombinedOutput en PATH_SOFTWARE [] w of
        ((out, Some err), w1) \<Rightarrow> (Some (Wrap err (''Install command output: '' @ out)), w1)
      | ((out, None), w1) \<Rightarrow> (None, w1))"

definition UninstallSoftware :: "env \<Rightarrow> world \<Rightarrow> go_error option \<times> world" where
  "UninstallSoftware en w =
     (case CombinedOutput en ''msiexec''
             [''/x'', ''{5D4D912A-D5EE-4748-84B8-7C2C75EC4408}'', ''/passive'', ''/forcerestart''] w of
        ((out, Some err), w1) \<Rightarrow> (Some (Wrap err (''Uninstall command output: '' @ out)), w1)
      | ((out, None), w1) \<Rightarrow> (None, w1))"

section \<open>Leaving the program (lines 147-163)\<close>

text \<open>
  \<open>os.Exit\<close> ends the run: each function returns the exit code with the final world, and
  the driver does nothing after it. Pauses are recorded in seconds.
\<close>

definition ExitWithSuccess :: "string \<Rightarrow> world \<Rightarrow> int \<times> world" where
  "ExitWithSuccess m w = (0, emit (Slept 10) (Printf (''SUCCESS: '' @ m @ [NL, NL]) w))"

definition ExitWithError :: "env \<Rightarrow> string \<Rightarrow> go_error \<Rightarrow> world \<Rightarrow> int \<times> world" where
  "ExitWithError en m e w =
     (1, emit (Slept 300) (Printf (''ERROR: '' @ m @ '' ('' @ fmt_error en e @ '')'' @ [NL, NL]) w))"

definition ExitWithoutSuccess :: "string \<Rightarrow> world \<Rightarrow> int \<times> world" where
  "ExitWithoutSuccess m w = (2, emit (Slept 300) (Printf (''UNSUCCESSFUL: '' @ m @ [NL, NL]) w))"

section \<open>The driver (lines 165-224)\<close>

text \<open>
  \<open>main\<close> is one function in the source; it is cut here at the two \<open>fmt.Println\<close> calls
  that open its later stages. Lines 213-223:
\<close>

definition main_install_network :: "env \<Rightarrow> world \<Rightarrow> int \<times> world" where
  "main_install_network en w =
     (let w1 = Println ''Installing the network catalog...'' w in
      case InstallNetworkCatalog en w1 of
        (Some err, w2) \<Rightarrow> ExitWithError en ''Failed to install the network catalog.'' err w2
      | (None, w2) \<Rightarrow>
         (let w3 = Println ''Checking the catalog status again...'' w2 in
          case GetCatalogStatus en w3 of
            ((catState, err), w4) \<Rightarrow>
              if err = None \<and> catState = CATALOG_STATE_NETWORK
              then ExitWithSuccess ''Looks good. Network catalog is now installed.'' w4
              else ExitWithoutSuccess
                     ''Finish installing the catalog by using the wizard. You can close this window.'' w4))"

text \<open>Lines 191-211; the result of \<open>CleanCatalog\<close> is dropped, as in line 210.\<close>

definition main_catalog :: "env \<Rightarrow> world \<Rightarrow> int \<times> world" where
  "main_catalog en w =
     (let w1 = Println ''Looks like the 2020 software is up to date. Let\\'s check your catalog...'' w in
      case GetCatalogStatus en w1 of
        ((catState, Some err), w2) \<Rightarrow> ExitWithError en ''Unable to check for Network Deployment.'' err w2
      | ((catState, None), w2) \<Rightarrow>
          if catState = CATALOG_STATE_NETWORK
          then ExitWithSuccess ''You are using the 2020 Network Deployment. Nice.'' w2
          else if catState = CATALOG_STATE_LOCAL then
            (let w3 = Println ''Looks like you have the catalog installed locally, not on the network.'' w2;
                 w4 = Println ''Uninstalling local catalog.'' w3 in
             case UninstallCatalog en w4 of
               (Some err, w5) \<Rightarrow>
                 ExitWithError en ''Can\\'t run the uninstaller for the catalog. Try running it yourself.'' err w5
             | (None, w5) \<Rightarrow>
                 (let w6 = Println ''Clearing out remaining files after uninstall.'' w5;
                      w7 = snd (CleanCatalog en w6) in
                  main_install_network en w7))
          else main_install_network en w2)"

text \<open>Lines 165-189, then the catalog stage.\<close>

definition main :: "env \<Rightarrow> world \<Rightarrow> int \<times> world" where
  "main en w =
     (case GetSoftwareStatus w of
        ((softInstalled, softCurrent, Some err), w1) \<Rightarrow>
          ExitWithError en ''Unable to check software status.'' err w1
      | ((softInstalled, softCurrent, None), w1) \<Rightarrow>
          if \<not> softInstalled then
            (let w2 = Println ''2020 software is not installed.'' w1 in
             case InstallSoftware en w2 of
               (Some err, w3) \<Rightarrow>
                 ExitWithError en
                   ''Unable to install the 2020 software. Restart your computer and try again manually.'' err w3
             | (None, w3) \<Rightarrow>
                 ExitWithoutSuccess ''Complete the install process manually and run this again afterward.'' w3)
          else if \<not> softCurrent then
            (let w2 = Println ''2020 software is out of date. Uninstalling current software...'' w1 in
             case UninstallSoftware en w2 of
               (Some err, w3) \<Rightarrow>
                 ExitWithError en
                   ''Unable to uninstall the 2020 software. Restart your computer and try again manually.'' err w3
             | (None, w3) \<Rightarrow>
                 ExitWithoutSuccess
                   ''Software uninstall will require a reboot. After reboot, run again to update software.'' w3)
          else main_catalog en w1)"

section \<open>The driver of the third revision (lines 536-598)\<close>

text \<open>Lines 587-597.\<close>

definition main_install_network_v3 :: "env \<Rightarrow> world \<Rightarrow> int \<times> world" where
  "main_install_network_v3 en w =
     (let w1 = Println ''Installing the network catalog...'' w in
      case InstallNetworkCatalog_v3 en w1 of
        (Some err, w2) \<Rightarrow> ExitWithError en ''Failed to install the network catalog.'' err w2
      | (None, w2) \<Rightarrow>
         (let w3 = Println ''Checking the catalog status again...'' w2 in
          case GetCatalogStatus_v3 w3 of
            ((catInstalled, catOnNetwork, err), w4) \<Rightarrow>
              if err = None \<and> catInstalled \<and> catOnNetwork
              then ExitWithSuccess ''Looks good. Network catalog is installed.'' w4
              else ExitWithoutSuccess
                     ''Finish installing the catalog by using the wizard. You can close this window.'' w4))"

text \<open>Lines 562-585.\<close>

definition main_catalog_v3 :: "env \<Rightarrow> world \<Rightarrow> int \<times> world" where
  "main_catalog_v3 en w =
     (let w1 = Println ''Looks like the 2020 software is up to date. Let\\'s check your catalog...'' w in
      case GetCatalogStatus_v3 w1 of
        ((catInstalled, catOnNetwork, Some err), w2) \<Rightarrow>
          ExitWithError en ''Unable to check for Network Deployment.'' err w2
      | ((catInstalled, catOnNetwork, None), w2) \<Rightarrow>
          if catOnNetwork
          then ExitWithSuccess ''You are using the 2020 Network Deployment. Nice.'' w2
          else if catInstalled \<and> \<not> catOnNetwork then
            (let w3 = Println ''Looks like you have the catalog installed locally, not on the network.'' w2 in
             case UninstallCatalog_v3 en w3 of
               (Some err, w4) \<Rightarrow>
                 ExitWithError en ''Can\\'t run the uninstaller for the catalog. Try running it yourself.'' err w4
             | (None, w4) \<Rightarrow>
                 (let w5 = Println ''Checking the catalog status again...'' w4 in
                  case GetCatalogStatus_v3 w5 of
                    ((catInstalled, catOnNetwork, err), w6) \<Rightarrow>
                      if err \<noteq> None \<or> (catInstalled \<and> \<not> catOnNetwork)
                      then ExitWithoutSuccess
                             ''Finish uninstalling the local catalog, then run this again. You can close this window.'' w6
                      else main_install_network_v3 en w6))
          else main_install_network_v3 en w2)"

text \<open>Lines 536-560, then the catalog stage.\<close>

definition main_v3 :: "env \<Rightarrow> world \<Rightarrow> int \<times> world" where
  "main_v3 en w =
     (case GetSoftwareStatus w of
        ((softInstalled, softCurrent, Some err), w1) \<Rightarrow>
          ExitWithError en ''Unable to check software status.'' err w1
      | ((softInstalled, softCurrent, None), w1) \<Rightarrow>
          if \<not> softInstalled then
            (let w2 = Println ''2020 software is not installed.'' w1 in
             case InstallSoftware en w2 of
               (Some err, w3) \<Rightarrow>
                 ExitWithError en
                   ''Unable to install the 2020 software. Restart your computer and try again manually.'' err w3
             | (None, w3) \<Rightarrow>
                 ExitWithoutSuccess ''Complete the install process manually and run this again afterward.'' w3)
          else if \<not> softCurrent then
            (let w2 = Println ''2020 software is out of date. Uninstalling current software...'' w1 in
             case UninstallSoftware en w2 of
               (Some err, w3) \<Rightarrow>
                 ExitWithError en
                   ''Unable to uninstall the 2020 software. Restart your computer and try again manually.'' err w3
             | (None, w3) \<Rightarrow>
                 ExitWithoutSuccess
                   ''Software uninstall will require a reboot. After reboot, run again to update software.'' w3)
          else main_catalog_v3 en w1)"

section \<open>Concrete machines and environments\<close>

text \<open>
  A registry key holding one string value, and a machine with the state cookie, the product
  key and the catalog key given; every other file and key is absent.
\<close>

definition key_with :: "string \<Rightarrow> string \<Rightarrow> go_error + reg_key" where
  "key_with name v = Inr (\<lambda>n. if n = name then Inr v else Inl registry_ErrNotExist)"

definition fixture :: "file_state \<Rightarrow> go_error + reg_key \<Rightarrow> go_error + reg_key \<Rightarrow> world" where
  "fixture cookie software catalog =
     \<lparr>mach = \<lparr>files = (\<lambda>p. if p = STATE_COOKIE then cookie
                             else OpenFails (PathError ''open'' p (Errno 2))),
              registry = (\<lambda>k. if k = CAP2020_SOFTWARE then software
                                else if k = CAP2020_CATALOG then catalog
                                else Inl registry_ErrNotExist)\<rparr>,
      trace = []\<rparr>"

text \<open>The baseline pick, and two cookies: one with the pick selected, one without picks.\<close>

definition demo_pick :: DSACatalogGranulePick where
  "demo_pick = \<lparr>PlatformType = ''CAP'', MfgCode = ''DMO'', SelectionState = ''Selected''\<rparr>"

definition cookie_selected :: DSACatalogState where
  "cookie_selected =
     \<lparr>UsingNetwork = False, GranulePicks = [demo_pick], LastDiscLocation = NETWORK_LOCATION\<rparr>"

definition cookie_network :: DSACatalogState where
  "cookie_network =
     \<lparr>UsingNetwork = True, GranulePicks = [], LastDiscLocation = NETWORK_LOCATION\<rparr>"

text \<open>The expected uninstall command with a lower-case drive letter.\<close>

definition lower_drive_uninstall :: string where
  "lower_drive_uninstall = ''c:'' @ BS # ''Program Files (x86)'' @ BS # ''2020'' @ BS # ''DSA'' @ BS
     # ''dsa.exe /removeall /rootpath \"C:'' @ BS # ''ProgramData'' @ BS # ''2020'' @ BS # ''DSA\"''"

text \<open>
  \<open>env_inert\<close>: processes exit with success and change nothing, \<open>os.RemoveAll\<close> fails and
  removes nothing. \<open>env_removing\<close>: as before, but \<open>os.RemoveAll\<close> removes the path and
  everything below it. \<open>env_truncating\<close>: as \<open>env_inert\<close>, but the catalog setup leaves a
  state cookie that does not decode.
\<close>

definition env_inert :: env where
  "env_inert =
     \<lparr>run_process = (\<lambda>name args m. (([], None), m)),
      remove_all = (\<lambda>p m. (Some (PathError ''unlinkat'' p (Errno 32)), m)),
      fold_unicode = (\<lambda>s t. False),
      fmt_error = (\<lambda>e. ''error'')\<rparr>"

definition env_removing :: env where
  "env_removing =
     env_inert\<lparr>remove_all := (\<lambda>p m. (None,
        m\<lparr>files := (\<lambda>q. if q = p \<or> take (length p + 1) q = p @ [BS]
                           then OpenFails (PathError ''open'' q (Errno 3)) else files m q)\<rparr>))\<rparr>"

definition env_truncating :: env where
  "env_truncating =
     env_inert\<lparr>run_process := (\<lambda>name args m.
        if name = PATH_CATALOG
        then (([], None), m\<lparr>files := (files m)(STATE_COOKIE := Decodes (Inl (OtherError ''unexpected EOF'')))\<rparr>)
        else (([], None), m))\<rparr>"

section \<open>ASCII case folding\<close>

text \<open>
  The lower-case form of an ASCII letter, every other byte unchanged. It is used to say what
  \<open>EqualFold\<close> decides on strings of ASCII bytes.
\<close>

definition ascii_lower :: "char \<Rightarrow> char" where
  "ascii_lower c =
     (if (65::nat) \<le> of_char c \<and> of_char c \<le> (90::nat) then char_of (of_char c + (32::nat)) else c)"

section \<open>Basic facts\<close>

lemma emit_simps [simp]:
  "trace (emit e w) = trace w @ [e]" "mach (emit e w) = mach w"
  by (simp_all add: emit_def)

lemma Printf_simps [simp]:
  "trace (Printf s w) = trace w @ [Printed s]" "mach (Printf s w) = mach w"
  by (simp_all add: Printf_def)

lemma Println_simps [simp]:
  "trace (Println s w) = trace w @ [Printed (s @ [NL])]" "mach (Println s w) = mach w"
  by (simp_all add: Println_def)

lemma launched_simps [simp]:
  "launched [] = []"
  "launched (xs @ ys) = launched xs @ launched ys"
  "launched (Exec n a # xs) = (n, a) # launched xs"
  "launched (Printed s # xs) = launched xs"
  "launched (Slept d # xs) = launched xs"
  "launched (FileOpen p # xs) = launched xs"
  "launched (RemoveAll p # xs) = launched xs"
  "launched (KeyOpen p # xs) = launched xs"
  by (simp_all add: launched_def)

lemma keys_distinct [simp]:
  "CAP2020_SOFTWARE \<noteq> CAP2020_CATALOG" "CAP2020_CATALOG \<noteq> CAP2020_SOFTWARE"
  by (simp_all add: CAP2020_SOFTWARE_def CAP2020_CATALOG_def)

lemma fixture_simps [simp]:
  "files (mach (fixture c s k)) STATE_COOKIE = c"
  "registry (mach (fixture c s k)) CAP2020_SOFTWARE = s"
  "registry (mach (fixture c s k)) CAP2020_CATALOG = k"
  "trace (fixture c s k) = []"
  by (simp_all add: fixture_def)

lemma demo_selected_iff:
  "demo_selected gs \<longleftrightarrow>
     (\<exists>g \<in> set gs. PlatformType g = ''CAP'' \<and> MfgCode g = ''DMO'' \<and> SelectionState g = ''Selected'')"
  by (induction gs) auto

lemma GetSoftwareStatus_mach [simp]: "mach (snd (GetSoftwareStatus w)) = mach w"
  by (simp add: GetSoftwareStatus_def Let_def split: sum.splits)

lemma GetSoftwareStatus_trace [simp]:
  "trace (snd (GetSoftwareStatus w)) = trace w @ [KeyOpen CAP2020_SOFTWARE]"
  by (simp add: GetSoftwareStatus_def Let_def split: sum.splits)

lemma GetCatalogStatus_mach [simp]: "mach (snd (GetCatalogStatus en w)) = mach w"
  by (simp add: GetCatalogStatus_def Let_def split: sum.splits file_state.splits)

lemma GetCatalogStatus_v3_mach [simp]: "mach (snd (GetCatalogStatus_v3 w)) = mach w"
  by (simp add: GetCatalogStatus_v3_def Let_def split: sum.splits file_state.splits)

lemma GetCatalogStatus_v3_trace [simp]:
  "trace (snd (GetCatalogStatus_v3 w)) = trace w @ [FileOpen STATE_COOKIE]"
  by (simp add: GetCatalogStatus_v3_def Let_def split: sum.splits file_state.splits)

lemma main_v3_current:
  "fst (GetSoftwareStatus w) = (True, True, None) \<Longrightarrow>
     main_v3 en w = main_catalog_v3 en (snd (GetSoftwareStatus w))"
  by (cases "GetSoftwareStatus w") (simp add: main_v3_def)

lemma main_current:
  "fst (GetSoftwareStatus w) = (True, True, None) \<Longrightarrow>
     main en w = main_catalog en (snd (GetSoftwareStatus w))"
  by (cases "GetSoftwareStatus w") (simp add: main_def)

lemma Exit_fst [simp]:
  "fst (ExitWithSuccess m w) = 0" "fst (ExitWithError en m e w) = 1" "fst (ExitWithoutSuccess m w) = 2"
  by (simp_all add: ExitWithSuccess_def ExitWithError_def ExitWithoutSuccess_def)

lemma Exit_snd [simp]:
  "mach (snd (ExitWithSuccess m w)) = mach w"
  "mach (snd (ExitWithError en m e w)) = mach w"
  "mach (snd (ExitWithoutSuccess m w)) = mach w"
  "launched (trace (snd (ExitWithSuccess m w))) = launched (trace w)"
  "launched (trace (snd (ExitWithError en m e w))) = launched (trace w)"
  "launched (trace (snd (ExitWithoutSuccess m w))) = launched (trace w)"
  by (simp_all add: ExitWithSuccess_def ExitWithError_def ExitWithoutSuccess_def)

subsection \<open>What \<open>EqualFold\<close> decides on ASCII strings\<close>

lemma ascii_lower_eq_iff:
  fixes a b :: char
  assumes "of_char a < (128::nat)" "of_char b < (128::nat)" "a \<noteq> b"
  shows "((65::nat) \<le> min (of_char a) (of_char b) \<and> min (of_char a) (of_char b) \<le> (90::nat)
              \<and> max (of_char a) (of_char b) = min (of_char a) (of_char b) + (32::nat))
         \<longleftrightarrow> ascii_lower a = ascii_lower b"
proof -
  define m where "m = (of_char a :: nat)"
  define n where "n = (of_char b :: nat)"
  have a: "a = char_of m" and b: "b = char_of n" by (simp_all add: m_def n_def)
  have m: "m < 128" and n: "n < 128" using assms by (simp_all add: m_def n_def)
  have mn: "m \<noteq> n" using assms(3) a b by auto
  have oc: "\<And>k::nat. k < 256 \<Longrightarrow> (of_char (char_of k :: char) :: nat) = k" by simp
  have inj: "\<And>j k::nat. j < 256 \<Longrightarrow> k < 256 \<Longrightarrow> (char_of j :: char) = char_of k \<longleftrightarrow> j = k"
    by (simp add: char_of_eq_iff take_bit_eq_mod)
  have la: "ascii_lower a = char_of (if 65 \<le> m \<and> m \<le> 90 then m + 32 else m)"
    using m by (simp add: ascii_lower_def a oc)
  have lb: "ascii_lower b = char_of (if 65 \<le> n \<and> n \<le> 90 then n + 32 else n)"
    using n by (simp add: ascii_lower_def b oc)
  have "ascii_lower a = ascii_lower b \<longleftrightarrow>
        (if 65 \<le> m \<and> m \<le> 90 then m + 32 else m) = (if 65 \<le> n \<and> n \<le> 90 then n + 32 else n)"
    unfolding la lb using m n by (intro inj) auto
  moreover have "of_char a = m" "of_char b = n" by (simp_all add: m_def n_def)
  ultimately show ?thesis using m n mn
    by (simp only: min_def max_def) (auto split: if_splits)
qed

lemma EqualFold_ascii:
  "(\<forall>c \<in> set s. of_char c < (128::nat)) \<Longrightarrow> (\<forall>c \<in> set t. of_char c < (128::nat)) \<Longrightarrow>
     EqualFold u s t \<longleftrightarrow> map ascii_lower s = map ascii_lower t"
proof (induction u s t rule: EqualFold.induct)
  case (1 u sr s tr t)
  define C where "C \<longleftrightarrow> (65::nat) \<le> min (of_char sr) (of_char tr) \<and> min (of_char sr) (of_char tr) \<le> (90::nat)
              \<and> max (of_char sr) (of_char tr) = min (of_char sr) (of_char tr) + (32::nat)"
  have sr: "of_char sr < (128::nat)" and tr: "of_char tr < (128::nat)"
    using "1.prems" by simp_all
  have s: "\<forall>c \<in> set s. of_char c < (128::nat)" and t: "\<forall>c \<in> set t. of_char c < (128::nat)"
    using "1.prems" by simp_all
  have step: "EqualFold u (sr # s) (tr # t) =
                (if tr = sr then EqualFold u s t else if C then EqualFold u s t else False)"
    unfolding C_def using sr tr by (simp add: not_le)
  show ?case
  proof (cases "tr = sr")
    case True
    have "EqualFold u s t \<longleftrightarrow> map ascii_lower s = map ascii_lower t"
      using "1.IH"(1) [OF _ True s t] sr tr by (simp add: not_le)
    then show ?thesis using step True by simp
  next
    case False
    then have ne: "sr \<noteq> tr" by simp
    have low: "C \<longleftrightarrow> ascii_lower sr = ascii_lower tr"
      unfolding C_def by (rule ascii_lower_eq_iff [OF sr tr ne])
    show ?thesis
    proof (cases C)
      case True
      have "EqualFold u s t \<longleftrightarrow> map ascii_lower s = map ascii_lower t"
        using "1.IH"(2) [OF _ False _ s t] True sr tr unfolding C_def by (simp add: not_le)
      then show ?thesis using step False True low by simp
    next
      case F: False
      then show ?thesis using step False low by simp
    qed
  qed
qed simp_all

lemma UNINSTALL_STRING_ascii: "\<forall>c \<in> set UNINSTALL_STRING. of_char c < (128::nat)"
  by (simp add: UNINSTALL_STRING_def)

lemma EqualFold_UNINSTALL_STRING [simp]: "EqualFold u UNINSTALL_STRING UNINSTALL_STRING"
  using EqualFold_ascii [OF UNINSTALL_STRING_ascii UNINSTALL_STRING_ascii] by simp

section \<open>The software status\<close>

text \<open>
  C6. \<open>GetSoftwareStatus\<close>: when the product key is absent the result is (not installed, not
  current) with no error; when the key opens and \<open>DisplayVersion\<close> reads exactly
  \<open>13.00.13037\<close> the result is (installed, current); when it reads any other string the
  result is (installed, not current).
\<close>

theorem GetSoftwareStatus_cases:
  "(registry (mach w) CAP2020_SOFTWARE = Inl registry_ErrNotExist
      \<longrightarrow> fst (GetSoftwareStatus w) = (False, False, None))
   \<and> (\<forall>k. registry (mach w) CAP2020_SOFTWARE = Inr k \<and> k ''DisplayVersion'' = Inr ''13.00.13037''
      \<longrightarrow> fst (GetSoftwareStatus w) = (True, True, None))
   \<and> (\<forall>k v. registry (mach w) CAP2020_SOFTWARE = Inr k \<and> k ''DisplayVersion'' = Inr v \<and> v \<noteq> ''13.00.13037''
      \<longrightarrow> fst (GetSoftwareStatus w) = (True, False, None))"
  by (simp add: GetSoftwareStatus_def CAP2020_SOFTWARE_CURRENT_def)

text \<open>The three cases on machines without the key, with the current and with an older version.\<close>

theorem GetSoftwareStatus_cases_witness:
  "fst (GetSoftwareStatus (fixture (OpenFails OsErrNotExist) (Inl registry_ErrNotExist) (Inl registry_ErrNotExist)))
     = (False, False, None)
   \<and> fst (GetSoftwareStatus (fixture (OpenFails OsErrNotExist) (key_with ''DisplayVersion'' ''13.00.13037'') (Inl registry_ErrNotExist)))
     = (True, True, None)
   \<and> fst (GetSoftwareStatus (fixture (OpenFails OsErrNotExist) (key_with ''DisplayVersion'' ''13.00.13036'') (Inl registry_ErrNotExist)))
     = (True, False, None)"
  using GetSoftwareStatus_cases [of "fixture (OpenFails OsErrNotExist) (Inl registry_ErrNotExist) (Inl registry_ErrNotExist)"]
        GetSoftwareStatus_cases [of "fixture (OpenFails OsErrNotExist) (key_with ''DisplayVersion'' ''13.00.13037'') (Inl registry_ErrNotExist)"]
        GetSoftwareStatus_cases [of "fixture (OpenFails OsErrNotExist) (key_with ''DisplayVersion'' ''13.00.13036'') (Inl registry_ErrNotExist)"]
  by (simp add: key_with_def)

text \<open>
  C10. \<open>GetSoftwareStatus\<close> never reports current without installed, and with an error both
  booleans are false.
\<close>

theorem GetSoftwareStatus_current_implies_installed:
  "fst (GetSoftwareStatus w) = (installed, current, err)
     \<Longrightarrow> (current \<longrightarrow> installed) \<and> (err \<noteq> None \<longrightarrow> \<not> installed \<and> \<not> current)"
  by (auto simp: GetSoftwareStatus_def Let_def split: sum.splits if_splits)

text \<open>A machine with the current version, and one whose key opens but has no \<open>DisplayVersion\<close>.\<close>

theorem GetSoftwareStatus_current_implies_installed_witness:
  "fst (GetSoftwareStatus (fixture (OpenFails OsErrNotExist) (key_with ''DisplayVersion'' ''13.00.13037'') (Inl (Errno 2))))
     = (True, True, None)
   \<and> fst (GetSoftwareStatus (fixture (OpenFails OsErrNotExist) (key_with ''Publisher'' ''20-20'') (Inl (Errno 2))))
     = (False, False, Some (Wrap (Errno 2) ''Cannot read value DisplayVersion''))"
proof -
  let ?w1 = "fixture (OpenFails OsErrNotExist) (key_with ''DisplayVersion'' ''13.00.13037'') (Inl (Errno 2))"
  let ?w2 = "fixture (OpenFails OsErrNotExist) (key_with ''Publisher'' ''20-20'') (Inl (Errno 2))"
  have a: "fst (GetSoftwareStatus ?w1) = (True, True, None)"
    by (simp add: GetSoftwareStatus_def key_with_def CAP2020_SOFTWARE_CURRENT_def)
  have b: "fst (GetSoftwareStatus ?w2)
             = (False, False, Some (Wrap (Errno 2) ''Cannot read value DisplayVersion''))"
    by (simp add: GetSoftwareStatus_def key_with_def)
  show ?thesis
    using GetSoftwareStatus_current_implies_installed [OF a]
          GetSoftwareStatus_current_implies_installed [OF b] a b
    by simp
qed

section \<open>The catalog status\<close>

text \<open>
  C7. When the state cookie opens but does not decode, \<open>GetCatalogStatus\<close> returns the
  state Invalid together with an error (never Missing without error); the third revision,
  whose result has no such state, returns an error.
\<close>

theorem GetCatalogStatus_malformed:
  "files (mach w) STATE_COOKIE = Decodes (Inl err) \<Longrightarrow>
     fst (GetCatalogStatus en w) = (CATALOG_STATE_INVALID, Some (Wrap err ''Cannot decode DSA state XML file''))
     \<and> fst (GetCatalogStatus_v3 w) = (False, False, Some (Wrap err ''Cannot decode DSA state XML file''))"
  by (simp add: GetCatalogStatus_def GetCatalogStatus_v3_def)

theorem GetCatalogStatus_malformed_witness:
  "fst (GetCatalogStatus env_inert (fixture (Decodes (Inl (OtherError ''unexpected EOF''))) (Inl (Errno 2)) (Inl (Errno 2))))
     = (3, Some (Wrap (OtherError ''unexpected EOF'') ''Cannot decode DSA state XML file''))
   \<and> fst (GetCatalogStatus_v3 (fixture (Decodes (Inl (OtherError ''unexpected EOF''))) (Inl (Errno 2)) (Inl (Errno 2))))
     = (False, False, Some (Wrap (OtherError ''unexpected EOF'') ''Cannot decode DSA state XML file''))"
  using GetCatalogStatus_malformed [of "fixture (Decodes (Inl (OtherError ''unexpected EOF''))) (Inl (Errno 2)) (Inl (Errno 2))"
          "OtherError ''unexpected EOF''" env_inert]
  by simp

text \<open>
  C2, as amended. When the state cookie decodes and its last source location is equal to the
  expected network path under \<open>EqualFold\<close>, \<open>GetCatalogStatus\<close> reports Network if no pick
  is the selected baseline pick (CAP, DMO, Selected), and Local if one is.
\<close>

theorem GetCatalogStatus_network:
  assumes "files (mach w) STATE_COOKIE = Decodes (Inr c)"
    and "EqualFold (fold_unicode en) (LastDiscLocation c) NETWORK_LOCATION"
  shows "fst (GetCatalogStatus en w) =
     (if \<exists>g \<in> set (GranulePicks c).
            PlatformType g = ''CAP'' \<and> MfgCode g = ''DMO'' \<and> SelectionState g = ''Selected''
      then (CATALOG_STATE_LOCAL, None) else (CATALOG_STATE_NETWORK, None))"
  using assms by (auto simp: GetCatalogStatus_def demo_selected_iff Let_def)

theorem GetCatalogStatus_network_witness:
  "fst (GetCatalogStatus env_inert (fixture (Decodes (Inr cookie_network)) (Inl (Errno 2)) (Inl (Errno 2))))
     = (CATALOG_STATE_NETWORK, None)
   \<and> fst (GetCatalogStatus env_inert (fixture (Decodes (Inr cookie_selected)) (Inl (Errno 2)) (Inl (Errno 2))))
     = (CATALOG_STATE_LOCAL, None)"
proof -
  have loc: "EqualFold (fold_unicode env_inert) (LastDiscLocation cookie_network) NETWORK_LOCATION"
    by (simp add: cookie_network_def NETWORK_LOCATION_def)
  have f: "files (mach (fixture (Decodes (Inr cookie_network)) (Inl (Errno 2)) (Inl (Errno 2)))) STATE_COOKIE
             = Decodes (Inr cookie_network)"
    by simp
  have loc': "EqualFold (fold_unicode env_inert) (LastDiscLocation cookie_selected) NETWORK_LOCATION"
    by (simp add: cookie_selected_def NETWORK_LOCATION_def)
  have f': "files (mach (fixture (Decodes (Inr cookie_selected)) (Inl (Errno 2)) (Inl (Errno 2)))) STATE_COOKIE
             = Decodes (Inr cookie_selected)"
    by simp
  show ?thesis
    using GetCatalogStatus_network [OF f loc] GetCatalogStatus_network [OF f' loc']
    by (simp add: cookie_network_def cookie_selected_def demo_pick_def)
qed

text \<open>
  The claim as stated fails: with the baseline pick selected and the last source location
  equal to the network path, the state is Local.
\<close>

theorem GetCatalogStatus_selected_is_local_counterexample:
  "GranulePicks cookie_selected
     = [\<lparr>PlatformType = ''CAP'', MfgCode = ''DMO'', SelectionState = ''Selected''\<rparr>]
   \<and> EqualFold (fold_unicode env_inert) (LastDiscLocation cookie_selected) NETWORK_LOCATION
   \<and> fst (GetCatalogStatus env_inert (fixture (Decodes (Inr cookie_selected)) (Inl (Errno 2)) (Inl (Errno 2))))
       = (CATALOG_STATE_LOCAL, None)
   \<and> CATALOG_STATE_LOCAL \<noteq> CATALOG_STATE_NETWORK"
  by (simp add: GetCatalogStatus_def cookie_selected_def demo_pick_def NETWORK_LOCATION_def)

text \<open>
  C3, as amended. When the state cookie cannot be opened, \<open>GetCatalogStatus\<close> reports
  Missing with no error, whatever the failure is. In the third revision every failure other
  than the value \<open>os.ErrNotExist\<close> is returned as an error, and the driver then leaves with
  exit code 1.
\<close>

theorem GetCatalogStatus_open_failure:
  assumes "files (mach w) STATE_COOKIE = OpenFails e"
  shows "fst (GetCatalogStatus en w) = (CATALOG_STATE_MISSNG, None)
     \<and> (e \<noteq> OsErrNotExist \<longrightarrow>
          fst (GetCatalogStatus_v3 w) = (False, False, Some (Wrap e ''Cannot open DSA state XML file''))
          \<and> (fst (GetSoftwareStatus w) = (True, True, None) \<longrightarrow> fst (main_v3 en w) = 1))"
proof -
  have a: "fst (GetCatalogStatus en w) = (CATALOG_STATE_MISSNG, None)"
    using assms by (simp add: GetCatalogStatus_def)
  have b: "fst (GetCatalogStatus_v3 w') = (False, False, Some (Wrap e ''Cannot open DSA state XML file''))"
    if "e \<noteq> OsErrNotExist" "mach w' = mach w" for w'
    using assms that by (simp add: GetCatalogStatus_v3_def)
  have c: "fst (main_v3 en w) = 1"
    if ne: "e \<noteq> OsErrNotExist" and cur: "fst (GetSoftwareStatus w) = (True, True, None)"
  proof -
    let ?w1 = "Println ''Looks like the 2020 software is up to date. Let\\'s check your catalog...''
                 (snd (GetSoftwareStatus w))"
    have "fst (GetCatalogStatus_v3 ?w1) = (False, False, Some (Wrap e ''Cannot open DSA state XML file''))"
      using b [OF ne, of ?w1] by simp
    then show ?thesis
      by (cases "GetCatalogStatus_v3 ?w1") (simp add: main_v3_current [OF cur] main_catalog_v3_def Let_def)
  qed
  show ?thesis using a b [of w] c by simp
qed

theorem GetCatalogStatus_open_failure_witness:
  "fst (GetCatalogStatus env_inert
          (fixture (OpenFails (PathError ''open'' STATE_COOKIE (Errno 5)))
             (key_with ''DisplayVersion'' ''13.00.13037'') (Inl (Errno 2)))) = (0, None)
   \<and> fst (GetCatalogStatus_v3
          (fixture (OpenFails (PathError ''open'' STATE_COOKIE (Errno 5)))
             (key_with ''DisplayVersion'' ''13.00.13037'') (Inl (Errno 2))))
       = (False, False, Some (Wrap (PathError ''open'' STATE_COOKIE (Errno 5)) ''Cannot open DSA state XML file''))
   \<and> fst (main_v3 env_inert
          (fixture (OpenFails (PathError ''open'' STATE_COOKIE (Errno 5)))
             (key_with ''DisplayVersion'' ''13.00.13037'') (Inl (Errno 2)))) = 1"
proof -
  let ?w = "fixture (OpenFails (PathError ''open'' STATE_COOKIE (Errno 5)))
             (key_with ''DisplayVersion'' ''13.00.13037'') (Inl (Errno 2))"
  have f: "files (mach ?w) STATE_COOKIE = OpenFails (PathError ''open'' STATE_COOKIE (Errno 5))"
    by simp
  have s: "fst (GetSoftwareStatus ?w) = (True, True, None)"
    by (simp add: GetSoftwareStatus_def key_with_def CAP2020_SOFTWARE_CURRENT_def)
  show ?thesis
    using GetCatalogStatus_open_failure [OF f, of env_inert] s by simp
qed

text \<open>The claim as stated fails: access denied (errno 5) gives Missing with no error.\<close>

theorem GetCatalogStatus_permission_error_counterexample:
  "fst (GetCatalogStatus env_inert
          (fixture (OpenFails (PathError ''open'' STATE_COOKIE (Errno 5))) (Inl (Errno 2)) (Inl (Errno 2))))
     = (CATALOG_STATE_MISSNG, None)"
  by (simp add: GetCatalogStatus_def)

section \<open>The uninstall command\<close>

text \<open>
  C1, as amended. With \<open>v\<close> read from \<open>UninstallString\<close>: \<open>UninstallCatalog\<close> launches the
  catalog uninstaller (and nothing else) when \<open>EqualFold\<close> holds of \<open>v\<close> and the expected
  literal; otherwise it returns the error naming the unexpected value, launches nothing
  and leaves the machine as it is. For \<open>v\<close> of ASCII bytes, \<open>EqualFold\<close> holds exactly when
  \<open>v\<close> and the literal agree up to the case of ASCII letters. The third revision launches
  exactly when \<open>v\<close> equals the literal byte for byte, and otherwise returns the error and
  launches nothing.
\<close>

theorem UninstallCatalog_gate:
  assumes "registry (mach w) CAP2020_CATALOG = Inr k" and "k ''UninstallString'' = Inr v"
  shows "(EqualFold (fold_unicode en) v UNINSTALL_STRING \<longrightarrow>
            launched (trace (snd (UninstallCatalog en w)))
              = launched (trace w) @ [(DSA_EXE, [''/removeall'', ''/rootpath'', ''\"'' @ DSA_DIR @ ''\"''])])
       \<and> (\<not> EqualFold (fold_unicode en) v UNINSTALL_STRING \<longrightarrow>
            fst (UninstallCatalog en w) = Some (Errorf (''UninstallString had an unexpected value of '' @ v))
            \<and> launched (trace (snd (UninstallCatalog en w))) = launched (trace w)
            \<and> mach (snd (UninstallCatalog en w)) = mach w)
       \<and> ((\<forall>c \<in> set v. of_char c < (128::nat)) \<longrightarrow>
            (EqualFold (fold_unicode en) v UNINSTALL_STRING
               \<longleftrightarrow> map ascii_lower v = map ascii_lower UNINSTALL_STRING))
       \<and> (v = UNINSTALL_STRING \<longrightarrow>
            launched (trace (snd (UninstallCatalog_v3 en w)))
              = launched (trace w) @ [(DSA_EXE, [''/removeall'', ''/rootpath'', ''\"'' @ DSA_DIR @ ''\"''])])
       \<and> (v \<noteq> UNINSTALL_STRING \<longrightarrow>
            fst (UninstallCatalog_v3 en w) = Some (Errorf (''UninstallString had an unexpected value of '' @ v))
            \<and> launched (trace (snd (UninstallCatalog_v3 en w))) = launched (trace w)
            \<and> mach (snd (UninstallCatalog_v3 en w)) = mach w)"
proof -
  have a: "EqualFold (fold_unicode en) v UNINSTALL_STRING \<Longrightarrow>
            launched (trace (snd (UninstallCatalog en w)))
              = launched (trace w) @ [(DSA_EXE, [''/removeall'', ''/rootpath'', ''\"'' @ DSA_DIR @ ''\"''])]"
    using assms by (simp add: UninstallCatalog_def Let_def CombinedOutput_def split: prod.splits option.splits)
  have b: "\<not> EqualFold (fold_unicode en) v UNINSTALL_STRING \<Longrightarrow>
            fst (UninstallCatalog en w) = Some (Errorf (''UninstallString had an unexpected value of '' @ v))
            \<and> launched (trace (snd (UninstallCatalog en w))) = launched (trace w)
            \<and> mach (snd (UninstallCatalog en w)) = mach w"
    using assms by (simp add: UninstallCatalog_def Let_def)
  have c: "(\<forall>c \<in> set v. of_char c < (128::nat)) \<Longrightarrow>
            (EqualFold (fold_unicode en) v UNINSTALL_STRING
               \<longleftrightarrow> map ascii_lower v = map ascii_lower UNINSTALL_STRING)"
    by (rule EqualFold_ascii [OF _ UNINSTALL_STRING_ascii])
  have d: "v = UNINSTALL_STRING \<Longrightarrow>
            launched (trace (snd (UninstallCatalog_v3 en w)))
              = launched (trace w) @ [(DSA_EXE, [''/removeall'', ''/rootpath'', ''\"'' @ DSA_DIR @ ''\"''])]"
    using assms by (simp add: UninstallCatalog_v3_def Let_def CombinedOutput_def split: prod.splits option.splits)
  have e: "v \<noteq> UNINSTALL_STRING \<Longrightarrow>
            fst (UninstallCatalog_v3 en w) = Some (Errorf (''UninstallString had an unexpected value of '' @ v))
            \<and> launched (trace (snd (UninstallCatalog_v3 en w))) = launched (trace w)
            \<and> mach (snd (UninstallCatalog_v3 en w)) = mach w"
    using assms by (simp add: UninstallCatalog_v3_def Let_def)
  show ?thesis using a b c d e by blast
qed

theorem UninstallCatalog_gate_witness:
  "launched (trace (snd (UninstallCatalog env_inert
       (fixture (Decodes (Inr cookie_selected)) (Inl (Errno 2)) (key_with ''UninstallString'' UNINSTALL_STRING)))))
     = [(DSA_EXE, [''/removeall'', ''/rootpath'', ''\"'' @ DSA_DIR @ ''\"''])]
   \<and> launched (trace (snd (UninstallCatalog_v3 env_inert
       (fixture (Decodes (Inr cookie_selected)) (Inl (Errno 2)) (key_with ''UninstallString'' UNINSTALL_STRING)))))
     = [(DSA_EXE, [''/removeall'', ''/rootpath'', ''\"'' @ DSA_DIR @ ''\"''])]
   \<and> fst (UninstallCatalog env_inert
       (fixture (Decodes (Inr cookie_selected)) (Inl (Errno 2)) (key_with ''UninstallString'' ''format c:'')))
     = Some (Errorf ''UninstallString had an unexpected value of format c:'')
   \<and> launched (trace (snd (UninstallCatalog env_inert
       (fixture (Decodes (Inr cookie_selected)) (Inl (Errno 2)) (key_with ''UninstallString'' ''format c:''))))) = []
   \<and> fst (UninstallCatalog_v3 env_inert
       (fixture (Decodes (Inr cookie_selected)) (Inl (Errno 2)) (key_with ''UninstallString'' lower_drive_uninstall)))
     = Some (Errorf (''UninstallString had an unexpected value of '' @ lower_drive_uninstall))
   \<and> launched (trace (snd (UninstallCatalog_v3 env_inert
       (fixture (Decodes (Inr cookie_selected)) (Inl (Errno 2)) (key_with ''UninstallString'' lower_drive_uninstall))))) = []"
proof -
  let ?k = "\<lambda>v n. if n = ''UninstallString'' then Inr v else (Inl (Errno 2) :: go_error + string)"
  let ?w = "\<lambda>v. fixture (Decodes (Inr cookie_selected)) (Inl (Errno 2)) (key_with ''UninstallString'' v)"
  have r: "\<And>v. registry (mach (?w v)) CAP2020_CATALOG = Inr (?k v)"
    by (simp add: key_with_def)
  have k: "\<And>v. ?k v ''UninstallString'' = Inr v"
    by simp
  have bad: "\<not> EqualFold (fold_unicode env_inert) ''format c:'' UNINSTALL_STRING"
    by (simp add: UNINSTALL_STRING_def)
  have ne: "lower_drive_uninstall \<noteq> UNINSTALL_STRING"
    by (simp add: lower_drive_uninstall_def UNINSTALL_STRING_def)
  show ?thesis
    using UninstallCatalog_gate [OF r [of UNINSTALL_STRING] k [of UNINSTALL_STRING], where en = env_inert]
          UninstallCatalog_gate [OF r [of "''format c:''"] k [of "''format c:''"], where en = env_inert]
          UninstallCatalog_gate [OF r [of lower_drive_uninstall] k [of lower_drive_uninstall], where en = env_inert]
          bad ne
    by simp
qed

text \<open>
  The claim as stated fails: a value that differs from the literal in the case of the drive
  letter passes the check, and the uninstaller is launched.
\<close>

theorem UninstallCatalog_lower_drive_counterexample:
  "lower_drive_uninstall \<noteq> UNINSTALL_STRING
   \<and> fst (UninstallCatalog env_inert
            (fixture (Decodes (Inr cookie_selected)) (Inl (Errno 2))
               (key_with ''UninstallString'' lower_drive_uninstall))) = None
   \<and> launched (trace (snd (UninstallCatalog env_inert
            (fixture (Decodes (Inr cookie_selected)) (Inl (Errno 2))
               (key_with ''UninstallString'' lower_drive_uninstall)))))
       = [(DSA_EXE, [''/removeall'', ''/rootpath'', ''\"'' @ DSA_DIR @ ''\"''])]"
proof -
  have ne: "lower_drive_uninstall \<noteq> UNINSTALL_STRING"
    by (simp add: lower_drive_uninstall_def UNINSTALL_STRING_def)
  have eq: "EqualFold (fold_unicode env_inert) lower_drive_uninstall UNINSTALL_STRING"
    by (simp add: lower_drive_uninstall_def UNINSTALL_STRING_def)
  show ?thesis
    using ne eq
    by (simp add: UninstallCatalog_def key_with_def Let_def env_inert_def CombinedOutput_def emit_def)
qed

section \<open>Terminal outcomes\<close>

lemma main_install_network_exits:
  assumes "\<And>m w'. P (ExitWithSuccess m w')" "\<And>m e w'. P (ExitWithError en m e w')"
    "\<And>m w'. P (ExitWithoutSuccess m w')"
  shows "P (main_install_network en w)"
  unfolding main_install_network_def Let_def
  by (auto split: prod.splits option.splits intro: assms)

lemma main_catalog_exits:
  assumes "\<And>m w'. P (ExitWithSuccess m w')" "\<And>m e w'. P (ExitWithError en m e w')"
    "\<And>m w'. P (ExitWithoutSuccess m w')"
  shows "P (main_catalog en w)"
  unfolding main_catalog_def Let_def
  by (auto split: prod.splits option.splits intro: assms main_install_network_exits)

lemma main_exits:
  assumes "\<And>m w'. P (ExitWithSuccess m w')" "\<And>m e w'. P (ExitWithError en m e w')"
    "\<And>m w'. P (ExitWithoutSuccess m w')"
  shows "P (main en w)"
  unfolding main_def Let_def
  by (auto split: prod.splits option.splits intro: assms main_catalog_exits)

lemma main_install_network_v3_exits:
  assumes "\<And>m w'. P (ExitWithSuccess m w')" "\<And>m e w'. P (ExitWithError en m e w')"
    "\<And>m w'. P (ExitWithoutSuccess m w')"
  shows "P (main_install_network_v3 en w)"
  unfolding main_install_network_v3_def Let_def
  by (auto split: prod.splits option.splits intro: assms)

lemma main_catalog_v3_exits:
  assumes "\<And>m w'. P (ExitWithSuccess m w')" "\<And>m e w'. P (ExitWithError en m e w')"
    "\<And>m w'. P (ExitWithoutSuccess m w')"
  shows "P (main_catalog_v3 en w)"
  unfolding main_catalog_v3_def Let_def
  by (auto split: prod.splits option.splits intro: assms main_install_network_v3_exits)

lemma main_v3_exits:
  assumes "\<And>m w'. P (ExitWithSuccess m w')" "\<And>m e w'. P (ExitWithError en m e w')"
    "\<And>m w'. P (ExitWithoutSuccess m w')"
  shows "P (main_v3 en w)"
  unfolding main_v3_def Let_def
  by (auto split: prod.splits option.splits intro: assms main_catalog_v3_exits)

text \<open>
  C9. Every run of the driver, in both revisions, ends in one of three ways: exit code 0
  after printing \<open>SUCCESS:\<close> and the message, exit code 1 after printing \<open>ERROR:\<close>, the
  message and the error, or exit code 2 after printing \<open>UNSUCCESSFUL:\<close> and the message;
  the print and the pause are the last two events of the run.
\<close>

theorem main_exit_categories:
  "(\<exists>m e w'.
      main en w = (0, w'\<lparr>trace := trace w' @ [Printed (''SUCCESS: '' @ m @ [NL, NL]), Slept 10]\<rparr>)
    \<or> main en w = (1, w'\<lparr>trace := trace w' @
         [Printed (''ERROR: '' @ m @ '' ('' @ fmt_error en e @ '')'' @ [NL, NL]), Slept 300]\<rparr>)
    \<or> main en w = (2, w'\<lparr>trace := trace w' @ [Printed (''UNSUCCESSFUL: '' @ m @ [NL, NL]), Slept 300]\<rparr>))
   \<and> (\<exists>m e w'.
      main_v3 en w = (0, w'\<lparr>trace := trace w' @ [Printed (''SUCCESS: '' @ m @ [NL, NL]), Slept 10]\<rparr>)
    \<or> main_v3 en w = (1, w'\<lparr>trace := trace w' @
         [Printed (''ERROR: '' @ m @ '' ('' @ fmt_error en e @ '')'' @ [NL, NL]), Slept 300]\<rparr>)
    \<or> main_v3 en w = (2, w'\<lparr>trace := trace w' @ [Printed (''UNSUCCESSFUL: '' @ m @ [NL, NL]), Slept 300]\<rparr>))"
proof -
  let ?P = "\<lambda>r. \<exists>m e w'.
      r = (0::int, w'\<lparr>trace := trace w' @ [Printed (''SUCCESS: '' @ m @ [NL, NL]), Slept 10]\<rparr>)
    \<or> r = (1, w'\<lparr>trace := trace w' @
         [Printed (''ERROR: '' @ m @ '' ('' @ fmt_error en e @ '')'' @ [NL, NL]), Slept 300]\<rparr>)
    \<or> r = (2, w'\<lparr>trace := trace w' @ [Printed (''UNSUCCESSFUL: '' @ m @ [NL, NL]), Slept 300]\<rparr>)"
  have s: "?P (ExitWithSuccess m w')" for m w'
    by (simp add: ExitWithSuccess_def Printf_def emit_def) blast
  have e: "?P (ExitWithError en m e w')" for m e w'
    by (simp add: ExitWithError_def Printf_def emit_def) blast
  have u: "?P (ExitWithoutSuccess m w')" for m w'
    by (simp add: ExitWithoutSuccess_def Printf_def emit_def) blast
  have "?P (main en w)" by (rule main_exits [where P = ?P, OF s e u])
  moreover have "?P (main_v3 en w)" by (rule main_v3_exits [where P = ?P, OF s e u])
  ultimately show ?thesis by blast
qed

section \<open>What the driver changes\<close>

lemma InstallNetworkCatalog_mach:
  "mach (snd (InstallNetworkCatalog en w)) = snd (run_process en PATH_CATALOG [] (mach w))"
  by (simp add: InstallNetworkCatalog_def CombinedOutput_def split: prod.splits option.splits)

lemma InstallSoftware_mach:
  "mach (snd (InstallSoftware en w)) = snd (run_process en PATH_SOFTWARE [] (mach w))"
  by (simp add: InstallSoftware_def CombinedOutput_def split: prod.splits option.splits)

lemma UninstallSoftware_mach:
  "mach (snd (UninstallSoftware en w)) = snd (run_process en ''msiexec''
     [''/x'', ''{5D4D912A-D5EE-4748-84B8-7C2C75EC4408}'', ''/passive'', ''/forcerestart''] (mach w))"
  by (simp add: UninstallSoftware_def CombinedOutput_def split: prod.splits option.splits)

lemma CleanCatalog_mach:
  "mach (snd (CleanCatalog en w)) = snd (remove_all en DSA_DIR (mach w))"
  by (simp add: CleanCatalog_def split: prod.splits)

lemma UninstallCatalog_mach:
  "mach (snd (UninstallCatalog en w)) = mach w
   \<or> mach (snd (UninstallCatalog en w)) = snd (run_process en DSA_EXE
         [''/removeall'', ''/rootpath'', ''\"'' @ DSA_DIR @ ''\"''] (mach w))"
  by (simp add: UninstallCatalog_def CombinedOutput_def Let_def split: prod.splits option.splits sum.splits)

lemma UninstallCatalog_v3_mach:
  "mach (snd (UninstallCatalog_v3 en w)) = mach w
   \<or> mach (snd (UninstallCatalog_v3 en w)) = snd (run_process en DSA_EXE
         [''/removeall'', ''/rootpath'', ''\"'' @ DSA_DIR @ ''\"''] (mach w))"
  by (simp add: UninstallCatalog_v3_def CombinedOutput_def Let_def split: prod.splits option.splits sum.splits)

lemma UninstallCatalog_mach_inert:
  "\<forall>n a m. snd (run_process en n a m) = m \<Longrightarrow> mach (snd (UninstallCatalog en w)) = mach w"
  using UninstallCatalog_mach [of en w] by auto

lemma UninstallCatalog_v3_mach_inert:
  "\<forall>n a m. snd (run_process en n a m) = m \<Longrightarrow> mach (snd (UninstallCatalog_v3 en w)) = mach w"
  using UninstallCatalog_v3_mach [of en w] by auto

lemma InstallNetworkCatalog_v3_mach_inert:
  assumes "\<forall>n a m. snd (run_process en n a m) = m"
  shows "mach (snd (InstallNetworkCatalog_v3 en w)) = mach w"
proof -
  have R: "\<And>n a m r m'. run_process en n a m = (r, m') \<Longrightarrow> m' = m"
    using assms by (metis snd_conv)
  show ?thesis
    by (auto simp: InstallNetworkCatalog_v3_def Run_def CombinedOutput_def Let_def
             split: prod.splits option.splits dest!: R)
qed

lemma main_install_network_inert:
  assumes "\<forall>n a m. snd (run_process en n a m) = m"
  shows "mach (snd (main_install_network en w)) = mach w"
proof -
  let ?w1 = "Println ''Installing the network catalog...'' w"
  obtain r w2 where i: "InstallNetworkCatalog en ?w1 = (r, w2)" by (cases "InstallNetworkCatalog en ?w1")
  have m2: "mach w2 = mach w"
    using InstallNetworkCatalog_mach [of en ?w1] assms i by simp
  let ?w3 = "Println ''Checking the catalog status again...'' w2"
  obtain s e w4 where g: "GetCatalogStatus en ?w3 = ((s, e), w4)" by (cases "GetCatalogStatus en ?w3") auto
  have m4: "mach w4 = mach w"
    using GetCatalogStatus_mach [of en ?w3] g m2 by simp
  show ?thesis
    using i g m2 m4 by (cases r) (simp_all add: main_install_network_def Let_def)
qed

lemma main_catalog_inert:
  assumes p: "\<forall>n a m. snd (run_process en n a m) = m" and r: "\<forall>p m. snd (remove_all en p m) = m"
  shows "mach (snd (main_catalog en w)) = mach w"
proof -
  let ?w1 = "Println ''Looks like the 2020 software is up to date. Let\\'s check your catalog...'' w"
  obtain s e w2 where g: "GetCatalogStatus en ?w1 = ((s, e), w2)" by (cases "GetCatalogStatus en ?w1") auto
  have m2: "mach w2 = mach w"
    using GetCatalogStatus_mach [of en ?w1] g by simp
  let ?w4 = "Println ''Uninstalling local catalog.''
               (Println ''Looks like you have the catalog installed locally, not on the network.'' w2)"
  obtain u w5 where un: "UninstallCatalog en ?w4 = (u, w5)" by (cases "UninstallCatalog en ?w4")
  have m5: "mach w5 = mach w"
    using UninstallCatalog_mach_inert [OF p, of ?w4] un m2 by simp
  let ?w7 = "snd (CleanCatalog en (Println ''Clearing out remaining files after uninstall.'' w5))"
  have m7: "mach ?w7 = mach w"
    using r m5 by (simp add: CleanCatalog_mach)
  show ?thesis
    using g un m2 m5 m7 main_install_network_inert [OF p]
    by (cases e; cases u) (simp_all add: main_catalog_def Let_def)
qed

lemma main_inert:
  assumes p: "\<forall>n a m. snd (run_process en n a m) = m" and r: "\<forall>p m. snd (remove_all en p m) = m"
  shows "mach (snd (main en w)) = mach w"
proof -
  obtain i c e w1 where g: "GetSoftwareStatus w = ((i, c, e), w1)" by (cases "GetSoftwareStatus w") auto
  have m1: "mach w1 = mach w" using GetSoftwareStatus_mach [of w] g by simp
  let ?wi = "Println ''2020 software is not installed.'' w1"
  obtain ri wi where ins: "InstallSoftware en ?wi = (ri, wi)" by (cases "InstallSoftware en ?wi")
  have mi: "mach wi = mach w" using InstallSoftware_mach [of en ?wi] ins p m1 by simp
  let ?wu = "Println ''2020 software is out of date. Uninstalling current software...'' w1"
  obtain ru wu where us: "UninstallSoftware en ?wu = (ru, wu)" by (cases "UninstallSoftware en ?wu")
  have mu: "mach wu = mach w" using UninstallSoftware_mach [of en ?wu] us p m1 by simp
  show ?thesis
    using g ins us m1 mi mu main_catalog_inert [OF p r]
    by (cases e; cases ri; cases ru) (simp_all add: main_def Let_def)
qed

lemma main_install_network_v3_inert:
  assumes p: "\<forall>n a m. snd (run_process en n a m) = m"
  shows "mach (snd (main_install_network_v3 en w)) = mach w"
proof -
  let ?w1 = "Println ''Installing the network catalog...'' w"
  obtain r w2 where i: "InstallNetworkCatalog_v3 en ?w1 = (r, w2)" by (cases "InstallNetworkCatalog_v3 en ?w1")
  have m2: "mach w2 = mach w"
    using InstallNetworkCatalog_v3_mach_inert [OF p, of ?w1] i by simp
  let ?w3 = "Println ''Checking the catalog status again...'' w2"
  obtain a b e w4 where g: "GetCatalogStatus_v3 ?w3 = ((a, b, e), w4)" by (cases "GetCatalogStatus_v3 ?w3") auto
  have m4: "mach w4 = mach w"
    using GetCatalogStatus_v3_mach [of ?w3] g m2 by simp
  show ?thesis
    using i g m2 m4 by (cases r) (simp_all add: main_install_network_v3_def Let_def)
qed

lemma main_catalog_v3_inert:
  assumes p: "\<forall>n a m. snd (run_process en n a m) = m"
  shows "mach (snd (main_catalog_v3 en w)) = mach w"
proof -
  let ?w1 = "Println ''Looks like the 2020 software is up to date. Let\\'s check your catalog...'' w"
  obtain a b e w2 where g: "GetCatalogStatus_v3 ?w1 = ((a, b, e), w2)" by (cases "GetCatalogStatus_v3 ?w1") auto
  have m2: "mach w2 = mach w"
    using GetCatalogStatus_v3_mach [of ?w1] g by simp
  let ?w3 = "Println ''Looks like you have the catalog installed locally, not on the network.'' w2"
  obtain u w4 where un: "UninstallCatalog_v3 en ?w3 = (u, w4)" by (cases "UninstallCatalog_v3 en ?w3")
  have m4: "mach w4 = mach w"
    using UninstallCatalog_v3_mach_inert [OF p, of ?w3] un m2 by simp
  let ?w5 = "Println ''Checking the catalog status again...'' w4"
  obtain a' b' e' w6 where g': "GetCatalogStatus_v3 ?w5 = ((a', b', e'), w6)"
    by (cases "GetCatalogStatus_v3 ?w5") auto
  have m6: "mach w6 = mach w"
    using GetCatalogStatus_v3_mach [of ?w5] g' m4 by simp
  show ?thesis
    using g un g' m2 m4 m6 main_install_network_v3_inert [OF p]
    by (cases e; cases u) (simp_all add: main_catalog_v3_def Let_def)
qed

lemma main_v3_inert:
  assumes p: "\<forall>n a m. snd (run_process en n a m) = m"
  shows "mach (snd (main_v3 en w)) = mach w"
proof -
  obtain i c e w1 where g: "GetSoftwareStatus w = ((i, c, e), w1)" by (cases "GetSoftwareStatus w") auto
  have m1: "mach w1 = mach w" using GetSoftwareStatus_mach [of w] g by simp
  let ?wi = "Println ''2020 software is not installed.'' w1"
  obtain ri wi where ins: "InstallSoftware en ?wi = (ri, wi)" by (cases "InstallSoftware en ?wi")
  have mi: "mach wi = mach w" using InstallSoftware_mach [of en ?wi] ins p m1 by simp
  let ?wu = "Println ''2020 software is out of date. Uninstalling current software...'' w1"
  obtain ru wu where us: "UninstallSoftware en ?wu = (ru, wu)" by (cases "UninstallSoftware en ?wu")
  have mu: "mach wu = mach w" using UninstallSoftware_mach [of en ?wu] us p m1 by simp
  show ?thesis
    using g ins us m1 mi mu main_catalog_v3_inert [OF p]
    by (cases e; cases ri; cases ru) (simp_all add: main_v3_def Let_def)
qed

lemma current_fixture:
  "fst (GetSoftwareStatus (fixture c (key_with ''DisplayVersion'' CAP2020_SOFTWARE_CURRENT) k)) = (True, True, None)"
  by (simp add: GetSoftwareStatus_def key_with_def)

text \<open>
  C4, as amended. \<open>GetCatalogStatus\<close> and \<open>GetSoftwareStatus\<close> leave the registry and the
  files as they are. The driver changes them only through the external commands it launches
  and through the \<open>os.RemoveAll\<close> of \<open>CleanCatalog\<close> on the directory of the state cookie:
  when processes and \<open>os.RemoveAll\<close> change nothing, a run changes nothing. The third
  revision has no \<open>CleanCatalog\<close>; there, when processes change nothing, a run changes
  nothing.
\<close>

theorem classification_reads_only:
  "mach (snd (GetCatalogStatus en w)) = mach w
   \<and> mach (snd (GetCatalogStatus_v3 w)) = mach w
   \<and> mach (snd (GetSoftwareStatus w)) = mach w
   \<and> ((\<forall>n a m. snd (run_process en n a m) = m) \<and> (\<forall>p m. snd (remove_all en p m) = m)
        \<longrightarrow> mach (snd (main en w)) = mach w)
   \<and> ((\<forall>n a m. snd (run_process en n a m) = m) \<longrightarrow> mach (snd (main_v3 en w)) = mach w)"
  using main_inert [of en w] main_v3_inert [of en w] by simp

theorem classification_reads_only_witness:
  "mach (snd (main env_inert
      (fixture (Decodes (Inr cookie_selected)) (key_with ''DisplayVersion'' CAP2020_SOFTWARE_CURRENT)
         (key_with ''UninstallString'' UNINSTALL_STRING))))
     = mach (fixture (Decodes (Inr cookie_selected)) (key_with ''DisplayVersion'' CAP2020_SOFTWARE_CURRENT)
         (key_with ''UninstallString'' UNINSTALL_STRING))
   \<and> mach (snd (main_v3 env_removing
      (fixture (Decodes (Inr cookie_selected)) (key_with ''DisplayVersion'' CAP2020_SOFTWARE_CURRENT)
         (key_with ''UninstallString'' UNINSTALL_STRING))))
     = mach (fixture (Decodes (Inr cookie_selected)) (key_with ''DisplayVersion'' CAP2020_SOFTWARE_CURRENT)
         (key_with ''UninstallString'' UNINSTALL_STRING))"
proof -
  have p: "\<forall>n a m. snd (run_process env_inert n a m) = m"
    and r: "\<forall>p m. snd (remove_all env_inert p m) = m"
    and p': "\<forall>n a m. snd (run_process env_removing n a m) = m"
    by (simp_all add: env_inert_def env_removing_def)
  show ?thesis
    using classification_reads_only [of env_inert] classification_reads_only [of env_removing] p r p'
    by blast
qed

text \<open>
  The claim as stated fails: with the catalog installed locally and processes that change
  nothing, the run removes the state cookie by \<open>CleanCatalog\<close>.
\<close>

theorem main_removes_state_cookie_counterexample:
  "files (mach (fixture (Decodes (Inr cookie_selected))
            (key_with ''DisplayVersion'' CAP2020_SOFTWARE_CURRENT)
            (key_with ''UninstallString'' UNINSTALL_STRING))) STATE_COOKIE
     = Decodes (Inr cookie_selected)
   \<and> files (mach (snd (main env_removing (fixture (Decodes (Inr cookie_selected))
            (key_with ''DisplayVersion'' CAP2020_SOFTWARE_CURRENT)
            (key_with ''UninstallString'' UNINSTALL_STRING))))) STATE_COOKIE
     = OpenFails (PathError ''open'' STATE_COOKIE (Errno 3))
   \<and> launched (trace (snd (main env_removing (fixture (Decodes (Inr cookie_selected))
            (key_with ''DisplayVersion'' CAP2020_SOFTWARE_CURRENT)
            (key_with ''UninstallString'' UNINSTALL_STRING)))))
     = [(DSA_EXE, [''/removeall'', ''/rootpath'', ''\"'' @ DSA_DIR @ ''\"'']), (PATH_CATALOG, [])]"
proof -
  let ?w = "fixture (Decodes (Inr cookie_selected))
            (key_with ''DisplayVersion'' CAP2020_SOFTWARE_CURRENT)
            (key_with ''UninstallString'' UNINSTALL_STRING)"
  have pre: "take (Suc (length DSA_DIR)) STATE_COOKIE = DSA_DIR @ [BS]"
    by (simp add: DSA_DIR_def STATE_COOKIE_def)
  have sel: "demo_selected (GranulePicks cookie_selected)"
    by (simp add: cookie_selected_def demo_pick_def)
  have m: "main env_removing ?w = main_catalog env_removing (snd (GetSoftwareStatus ?w))"
    by (rule main_current [OF current_fixture])
  show ?thesis
    unfolding m using pre sel
    by (simp add: main_catalog_def main_install_network_def GetSoftwareStatus_def
          GetCatalogStatus_def UninstallCatalog_def CleanCatalog_def InstallNetworkCatalog_def
          CombinedOutput_def ExitWithSuccess_def ExitWithoutSuccess_def ExitWithError_def
          env_removing_def env_inert_def key_with_def Let_def)
qed

section \<open>Errors of the reads\<close>

lemma main_software_error:
  assumes "snd (snd (fst (GetSoftwareStatus w))) = Some e"
  shows "fst (main en w) = 1 \<and> launched (trace (snd (main en w))) = launched (trace w)"
proof -
  define i where "i = fst (fst (GetSoftwareStatus w))"
  define c where "c = fst (snd (fst (GetSoftwareStatus w)))"
  define w1 where "w1 = snd (GetSoftwareStatus w)"
  have g: "GetSoftwareStatus w = ((i, c, Some e), w1)"
    using assms by (simp add: i_def c_def w1_def prod_eq_iff)
  have t: "trace w1 = trace w @ [KeyOpen CAP2020_SOFTWARE]"
    by (simp add: w1_def)
  have "main en w = ExitWithError en ''Unable to check software status.'' e w1"
    unfolding main_def g by simp
  then show ?thesis using t by simp
qed

lemma GetCatalogStatus_decode_error:
  assumes "files (mach w) STATE_COOKIE = Decodes (Inl e)"
  shows "GetCatalogStatus en w =
     ((CATALOG_STATE_INVALID, Some (Wrap e ''Cannot decode DSA state XML file'')), emit (FileOpen STATE_COOKIE) w)"
  using assms by (simp add: GetCatalogStatus_def)

lemma main_catalog_error:
  assumes cur: "fst (GetSoftwareStatus w) = (True, True, None)"
    and f: "files (mach w) STATE_COOKIE = Decodes (Inl e)"
  shows "fst (main en w) = 1 \<and> launched (trace (snd (main en w))) = launched (trace w)"
proof -
  let ?w1 = "Println ''Looks like the 2020 software is up to date. Let\\'s check your catalog...''
               (snd (GetSoftwareStatus w))"
  have f1: "files (mach ?w1) STATE_COOKIE = Decodes (Inl e)"
    using f by simp
  have "main en w = ExitWithError en ''Unable to check for Network Deployment.''
          (Wrap e ''Cannot decode DSA state XML file'') (emit (FileOpen STATE_COOKIE) ?w1)"
    unfolding main_current [OF cur] main_catalog_def Let_def GetCatalogStatus_decode_error [OF f1]
    by simp
  then show ?thesis by simp
qed

lemma main_install_network_recheck_error:
  assumes i: "InstallNetworkCatalog en (Println ''Installing the network catalog...'' w) = (None, w2)"
    and f: "files (mach w2) STATE_COOKIE = Decodes (Inl e)"
  shows "fst (main_install_network en w) = 2
      \<and> launched (trace (snd (main_install_network en w))) = launched (trace w2)"
proof -
  let ?w3 = "Println ''Checking the catalog status again...'' w2"
  have f3: "files (mach ?w3) STATE_COOKIE = Decodes (Inl e)"
    using f by simp
  have "main_install_network en w = ExitWithoutSuccess
          ''Finish installing the catalog by using the wizard. You can close this window.''
          (emit (FileOpen STATE_COOKIE) ?w3)"
    using i GetCatalogStatus_decode_error [OF f3, of en]
    by (simp add: main_install_network_def Let_def)
  then show ?thesis by simp
qed

text \<open>
  C8, as amended. When the software status read returns an error, or the software is current
  and the first catalog status read returns an error, the run ends with exit code 1 and
  launches no command. When the catalog status read after the network install returns an
  error, the run ends with exit code 2 and launches no command after the install.
\<close>

theorem main_read_errors:
  "(snd (snd (fst (GetSoftwareStatus w))) = Some e \<longrightarrow>
      fst (main en w) = 1 \<and> launched (trace (snd (main en w))) = launched (trace w))
   \<and> (fst (GetSoftwareStatus w) = (True, True, None) \<and> files (mach w) STATE_COOKIE = Decodes (Inl e) \<longrightarrow>
      fst (main en w) = 1 \<and> launched (trace (snd (main en w))) = launched (trace w))
   \<and> (InstallNetworkCatalog en (Println ''Installing the network catalog...'' w) = (None, w2)
        \<and> files (mach w2) STATE_COOKIE = Decodes (Inl e) \<longrightarrow>
      fst (main_install_network en w) = 2
      \<and> launched (trace (snd (main_install_network en w))) = launched (trace w2))"
  using main_software_error [of w e en] main_catalog_error [of w e en]
        main_install_network_recheck_error [of en w w2 e]
  by blast

theorem main_read_errors_witness:
  "fst (main env_inert (fixture (Decodes (Inl (OtherError ''unexpected EOF'')))
          (key_with ''Publisher'' ''20-20'') (Inl (Errno 2)))) = 1
   \<and> launched (trace (snd (main env_inert (fixture (Decodes (Inl (OtherError ''unexpected EOF'')))
          (key_with ''Publisher'' ''20-20'') (Inl (Errno 2)))))) = []
   \<and> fst (main env_inert (fixture (Decodes (Inl (OtherError ''unexpected EOF'')))
          (key_with ''DisplayVersion'' CAP2020_SOFTWARE_CURRENT) (Inl (Errno 2)))) = 1
   \<and> launched (trace (snd (main env_inert (fixture (Decodes (Inl (OtherError ''unexpected EOF'')))
          (key_with ''DisplayVersion'' CAP2020_SOFTWARE_CURRENT) (Inl (Errno 2)))))) = []
   \<and> fst (main_install_network env_inert (fixture (Decodes (Inl (OtherError ''unexpected EOF'')))
          (key_with ''DisplayVersion'' CAP2020_SOFTWARE_CURRENT) (Inl (Errno 2)))) = 2
   \<and> launched (trace (snd (main_install_network env_inert (fixture (Decodes (Inl (OtherError ''unexpected EOF'')))
          (key_with ''DisplayVersion'' CAP2020_SOFTWARE_CURRENT) (Inl (Errno 2)))))) = [(PATH_CATALOG, [])]"
proof -
  let ?c = "Decodes (Inl (OtherError ''unexpected EOF''))"
  let ?w1 = "fixture ?c (key_with ''Publisher'' ''20-20'') (Inl (Errno 2))"
  let ?w2 = "fixture ?c (key_with ''DisplayVersion'' CAP2020_SOFTWARE_CURRENT) (Inl (Errno 2))"
  let ?w3 = "(emit (Exec PATH_CATALOG []) (Println ''Installing the network catalog...'' ?w2))
               \<lparr>mach := mach ?w2\<rparr>"
  have s1: "snd (snd (fst (GetSoftwareStatus ?w1))) = Some (Wrap (Errno 2) ''Cannot read value DisplayVersion'')"
    by (simp add: GetSoftwareStatus_def key_with_def)
  have i3: "InstallNetworkCatalog env_inert (Println ''Installing the network catalog...'' ?w2) = (None, ?w3)"
    by (simp add: InstallNetworkCatalog_def CombinedOutput_def env_inert_def)
  have f3: "files (mach ?w3) STATE_COOKIE = ?c"
    by simp
  show ?thesis
    using main_read_errors [of ?w1 "Wrap (Errno 2) ''Cannot read value DisplayVersion''" env_inert]
          main_read_errors [of ?w2 "OtherError ''unexpected EOF''" env_inert ?w3]
          s1 current_fixture [of ?c "Inl (Errno 2)"] i3 f3
    by simp
qed

text \<open>
  The claim as stated fails: the catalog setup leaves a state cookie that does not decode,
  the read after the install returns an error, and the run ends with exit code 2.
\<close>

theorem main_recheck_error_counterexample:
  "fst (main env_truncating (fixture (OpenFails (PathError ''open'' STATE_COOKIE (Errno 2)))
          (key_with ''DisplayVersion'' CAP2020_SOFTWARE_CURRENT) (Inl (Errno 2)))) = 2
   \<and> trace (snd (main env_truncating (fixture (OpenFails (PathError ''open'' STATE_COOKIE (Errno 2)))
          (key_with ''DisplayVersion'' CAP2020_SOFTWARE_CURRENT) (Inl (Errno 2)))))
      = [KeyOpen CAP2020_SOFTWARE,
         Printed (''Looks like the 2020 software is up to date. Let\\'s check your catalog...'' @ [NL]),
         FileOpen STATE_COOKIE,
         Printed (''Installing the network catalog...'' @ [NL]),
         Exec PATH_CATALOG [],
         Printed (''Checking the catalog status again...'' @ [NL]),
         FileOpen STATE_COOKIE,
         Printed (''UNSUCCESSFUL: Finish installing the catalog by using the wizard. You can close this window.''
                    @ [NL, NL]),
         Slept 300]
   \<and> fst (GetCatalogStatus env_truncating
        (snd (main env_truncating (fixture (OpenFails (PathError ''open'' STATE_COOKIE (Errno 2)))
          (key_with ''DisplayVersion'' CAP2020_SOFTWARE_CURRENT) (Inl (Errno 2))))))
      = (CATALOG_STATE_INVALID, Some (Wrap (OtherError ''unexpected EOF'') ''Cannot decode DSA state XML file''))"
proof -
  let ?w = "fixture (OpenFails (PathError ''open'' STATE_COOKIE (Errno 2)))
          (key_with ''DisplayVersion'' CAP2020_SOFTWARE_CURRENT) (Inl (Errno 2))"
  have m: "main env_truncating ?w = main_catalog env_truncating (snd (GetSoftwareStatus ?w))"
    by (rule main_current [OF current_fixture])
  show ?thesis
    unfolding m
    by (simp add: main_catalog_def main_install_network_def GetSoftwareStatus_def
          GetCatalogStatus_def InstallNetworkCatalog_def
          CombinedOutput_def ExitWithSuccess_def ExitWithoutSuccess_def ExitWithError_def
          env_truncating_def env_inert_def key_with_def Let_def)
qed

section \<open>The locally installed catalog\<close>

lemma GetCatalogStatus_v3_local:
  assumes "files (mach w) STATE_COOKIE = Decodes (Inr c)" "demo_selected (GranulePicks c)" "\<not> UsingNetwork c"
  shows "GetCatalogStatus_v3 w = ((True, False, None), emit (FileOpen STATE_COOKIE) w)"
  using assms by (simp add: GetCatalogStatus_v3_def)

lemma GetCatalogStatus_local:
  assumes "files (mach w) STATE_COOKIE = Decodes (Inr c)" "demo_selected (GranulePicks c)"
  shows "GetCatalogStatus en w = ((CATALOG_STATE_LOCAL, None), emit (FileOpen STATE_COOKIE) w)"
  using assms by (simp add: GetCatalogStatus_def)

lemma UninstallCatalog_v3_ok:
  assumes "registry (mach w) CAP2020_CATALOG = Inr k" "k ''UninstallString'' = Inr UNINSTALL_STRING"
    "run_process en DSA_EXE [''/removeall'', ''/rootpath'', ''\"'' @ DSA_DIR @ ''\"''] (mach w) = ((out, None), m)"
  shows "UninstallCatalog_v3 en w =
     (None, (emit (Exec DSA_EXE [''/removeall'', ''/rootpath'', ''\"'' @ DSA_DIR @ ''\"''])
               (emit (KeyOpen CAP2020_CATALOG) w))\<lparr>mach := m\<rparr>)"
  using assms by (simp add: UninstallCatalog_v3_def CombinedOutput_def)

lemma UninstallCatalog_ok:
  assumes "registry (mach w) CAP2020_CATALOG = Inr k" "k ''UninstallString'' = Inr UNINSTALL_STRING"
    "run_process en DSA_EXE [''/removeall'', ''/rootpath'', ''\"'' @ DSA_DIR @ ''\"''] (mach w) = ((out, None), m)"
  shows "UninstallCatalog en w =
     (None, (emit (Exec DSA_EXE [''/removeall'', ''/rootpath'', ''\"'' @ DSA_DIR @ ''\"''])
               (emit (KeyOpen CAP2020_CATALOG) w))\<lparr>mach := m\<rparr>)"
  using assms by (simp add: UninstallCatalog_def CombinedOutput_def)

lemma world_eqI: "mach (a::world) = mach b \<Longrightarrow> trace a = trace b \<Longrightarrow> a = b"
  by simp

text \<open>
  C5, as amended. With the software current, the baseline pick selected, the network flag
  off and the catalog uninstaller run with success: the third revision reads the catalog
  status once more, on the machine the uninstaller left, and ends with the outcome
  "Finish uninstalling the local catalog" (exit code 2) if that read returns an error or
  still reports local-only, and goes on to the network install otherwise. The first
  revision does not read the status again: it removes the catalog directory and goes on to
  the network install.
\<close>

theorem main_local_recheck:
  assumes soft: "fst (GetSoftwareStatus w) = (True, True, None)"
    and cookie: "files (mach w) STATE_COOKIE = Decodes (Inr c)"
    and sel: "demo_selected (GranulePicks c)" and loc: "\<not> UsingNetwork c"
    and key: "registry (mach w) CAP2020_CATALOG = Inr k"
    and val: "k ''UninstallString'' = Inr UNINSTALL_STRING"
    and un: "run_process en DSA_EXE [''/removeall'', ''/rootpath'', ''\"'' @ DSA_DIR @ ''\"''] (mach w)
               = ((out, None), m)"
  shows "main_v3 en w =
      (case GetCatalogStatus_v3
              \<lparr>mach = m,
               trace = trace w @
                 [KeyOpen CAP2020_SOFTWARE,
                  Printed (''Looks like the 2020 software is up to date. Let\\'s check your catalog...'' @ [NL]),
                  FileOpen STATE_COOKIE,
                  Printed (''Looks like you have the catalog installed locally, not on the network.'' @ [NL]),
                  KeyOpen CAP2020_CATALOG,
                  Exec DSA_EXE [''/removeall'', ''/rootpath'', ''\"'' @ DSA_DIR @ ''\"''],
                  Printed (''Checking the catalog status again...'' @ [NL])]\<rparr> of
         ((catInstalled, catOnNetwork, err), w') \<Rightarrow>
           if err \<noteq> None \<or> (catInstalled \<and> \<not> catOnNetwork)
           then ExitWithoutSuccess
                  ''Finish uninstalling the local catalog, then run this again. You can close this window.'' w'
           else main_install_network_v3 en w')
    \<and> main en w =
        main_install_network en
          \<lparr>mach = snd (remove_all en DSA_DIR m),
           trace = trace w @
             [KeyOpen CAP2020_SOFTWARE,
              Printed (''Looks like the 2020 software is up to date. Let\\'s check your catalog...'' @ [NL]),
              FileOpen STATE_COOKIE,
              Printed (''Looks like you have the catalog installed locally, not on the network.'' @ [NL]),
              Printed (''Uninstalling local catalog.'' @ [NL]),
              KeyOpen CAP2020_CATALOG,
              Exec DSA_EXE [''/removeall'', ''/rootpath'', ''\"'' @ DSA_DIR @ ''\"''],
              Printed (''Clearing out remaining files after uninstall.'' @ [NL]),
              RemoveAll DSA_DIR]\<rparr>"
proof -
  let ?w1 = "Println ''Looks like the 2020 software is up to date. Let\\'s check your catalog...''
               (snd (GetSoftwareStatus w))"
  have c1: "files (mach ?w1) STATE_COOKIE = Decodes (Inr c)" using cookie by simp
  let ?w2 = "emit (FileOpen STATE_COOKIE) ?w1"
  let ?w3 = "Println ''Looks like you have the catalog installed locally, not on the network.'' ?w2"
  have k3: "registry (mach ?w3) CAP2020_CATALOG = Inr k" using key by simp
  have u3: "run_process en DSA_EXE [''/removeall'', ''/rootpath'', ''\"'' @ DSA_DIR @ ''\"''] (mach ?w3)
               = ((out, None), m)" using un by simp
  let ?w4 = "(emit (Exec DSA_EXE [''/removeall'', ''/rootpath'', ''\"'' @ DSA_DIR @ ''\"''])
               (emit (KeyOpen CAP2020_CATALOG) ?w3))\<lparr>mach := m\<rparr>"
  let ?w5 = "Println ''Checking the catalog status again...'' ?w4"
  let ?W5 = "\<lparr>mach = m,
               trace = trace w @
                 [KeyOpen CAP2020_SOFTWARE,
                  Printed (''Looks like the 2020 software is up to date. Let\\'s check your catalog...'' @ [NL]),
                  FileOpen STATE_COOKIE,
                  Printed (''Looks like you have the catalog installed locally, not on the network.'' @ [NL]),
                  KeyOpen CAP2020_CATALOG,
                  Exec DSA_EXE [''/removeall'', ''/rootpath'', ''\"'' @ DSA_DIR @ ''\"''],
                  Printed (''Checking the catalog status again...'' @ [NL])]\<rparr>"
  have w5: "?w5 = ?W5"
    by (rule world_eqI) simp_all
  have v3: "main_v3 en w =
      (case GetCatalogStatus_v3 ?w5 of
         ((catInstalled, catOnNetwork, err), w') \<Rightarrow>
           if err \<noteq> None \<or> (catInstalled \<and> \<not> catOnNetwork)
           then ExitWithoutSuccess
                  ''Finish uninstalling the local catalog, then run this again. You can close this window.'' w'
           else main_install_network_v3 en w')"
    using GetCatalogStatus_v3_local [OF c1 sel loc] UninstallCatalog_v3_ok [OF k3 val u3]
    by (simp add: main_v3_current [OF soft] main_catalog_v3_def Let_def)
  let ?v4 = "Println ''Uninstalling local catalog.''
               (Println ''Looks like you have the catalog installed locally, not on the network.'' ?w2)"
  have k4: "registry (mach ?v4) CAP2020_CATALOG = Inr k" using key by simp
  have u4: "run_process en DSA_EXE [''/removeall'', ''/rootpath'', ''\"'' @ DSA_DIR @ ''\"''] (mach ?v4)
               = ((out, None), m)" using un by simp
  let ?v5 = "(emit (Exec DSA_EXE [''/removeall'', ''/rootpath'', ''\"'' @ DSA_DIR @ ''\"''])
               (emit (KeyOpen CAP2020_CATALOG) ?v4))\<lparr>mach := m\<rparr>"
  let ?v7 = "snd (CleanCatalog en (Println ''Clearing out remaining files after uninstall.'' ?v5))"
  let ?V7 = "\<lparr>mach = snd (remove_all en DSA_DIR m),
           trace = trace w @
             [KeyOpen CAP2020_SOFTWARE,
              Printed (''Looks like the 2020 software is up to date. Let\\'s check your catalog...'' @ [NL]),
              FileOpen STATE_COOKIE,
              Printed (''Looks like you have the catalog installed locally, not on the network.'' @ [NL]),
              Printed (''Uninstalling local catalog.'' @ [NL]),
              KeyOpen CAP2020_CATALOG,
              Exec DSA_EXE [''/removeall'', ''/rootpath'', ''\"'' @ DSA_DIR @ ''\"''],
              Printed (''Clearing out remaining files after uninstall.'' @ [NL]),
              RemoveAll DSA_DIR]\<rparr>"
  have v7: "?v7 = ?V7"
    by (rule world_eqI) (simp_all add: CleanCatalog_def split: prod.splits)
  have v1: "main en w = main_install_network en ?v7"
    using GetCatalogStatus_local [OF c1 sel, of en] UninstallCatalog_ok [OF k4 val u4]
    by (simp add: main_current [OF soft] main_catalog_def Let_def)
  show ?thesis
    using v3 v1 unfolding w5 v7 by simp
qed

theorem main_local_recheck_witness:
  "fst (main_v3 env_inert (fixture (Decodes (Inr cookie_selected))
          (key_with ''DisplayVersion'' CAP2020_SOFTWARE_CURRENT)
          (key_with ''UninstallString'' UNINSTALL_STRING))) = 2
   \<and> launched (trace (snd (main_v3 env_inert (fixture (Decodes (Inr cookie_selected))
          (key_with ''DisplayVersion'' CAP2020_SOFTWARE_CURRENT)
          (key_with ''UninstallString'' UNINSTALL_STRING)))))
       = [(DSA_EXE, [''/removeall'', ''/rootpath'', ''\"'' @ DSA_DIR @ ''\"''])]
   \<and> launched (trace (snd (main env_inert (fixture (Decodes (Inr cookie_selected))
          (key_with ''DisplayVersion'' CAP2020_SOFTWARE_CURRENT)
          (key_with ''UninstallString'' UNINSTALL_STRING)))))
       = [(DSA_EXE, [''/removeall'', ''/rootpath'', ''\"'' @ DSA_DIR @ ''\"'']), (PATH_CATALOG, [])]"
proof -
  let ?w = "fixture (Decodes (Inr cookie_selected))
          (key_with ''DisplayVersion'' CAP2020_SOFTWARE_CURRENT)
          (key_with ''UninstallString'' UNINSTALL_STRING)"
  let ?k = "\<lambda>n. if n = ''UninstallString'' then Inr UNINSTALL_STRING else (Inl (Errno 2) :: go_error + string)"
  have cookie: "files (mach ?w) STATE_COOKIE = Decodes (Inr cookie_selected)" by simp
  have sel: "demo_selected (GranulePicks cookie_selected)"
    by (simp add: cookie_selected_def demo_pick_def)
  have loc: "\<not> UsingNetwork cookie_selected" by (simp add: cookie_selected_def)
  have key: "registry (mach ?w) CAP2020_CATALOG = Inr ?k" by (simp add: key_with_def)
  have val: "?k ''UninstallString'' = Inr UNINSTALL_STRING" by simp
  have un: "run_process env_inert DSA_EXE [''/removeall'', ''/rootpath'', ''\"'' @ DSA_DIR @ ''\"''] (mach ?w)
              = (([], None), mach ?w)"
    by (simp add: env_inert_def)
  have rm: "snd (remove_all env_inert DSA_DIR (mach ?w)) = mach ?w"
    by (simp add: env_inert_def)
  have again: "files (mach (w'\<lparr>mach := mach ?w\<rparr>)) STATE_COOKIE = Decodes (Inr cookie_selected)" for w' :: world
    by simp
  note t = main_local_recheck [OF current_fixture cookie sel loc key val un]
  have a: "fst (main_v3 env_inert ?w) = 2
      \<and> launched (trace (snd (main_v3 env_inert ?w)))
           = [(DSA_EXE, [''/removeall'', ''/rootpath'', ''\"'' @ DSA_DIR @ ''\"''])]"
    unfolding t [THEN conjunct1]
    using sel loc by (simp add: GetCatalogStatus_v3_def)
  have b: "launched (trace (snd (main env_inert ?w)))
       = [(DSA_EXE, [''/removeall'', ''/rootpath'', ''\"'' @ DSA_DIR @ ''\"'']), (PATH_CATALOG, [])]"
    unfolding t [THEN conjunct2] rm
    using sel
    by (simp add: main_install_network_def InstallNetworkCatalog_def CombinedOutput_def
          GetCatalogStatus_def env_inert_def Let_def)
  show ?thesis using a b by simp
qed

text \<open>
  The claim as stated fails: processes and \<open>os.RemoveAll\<close> change nothing, so the catalog is
  still local after the uninstaller; the run opens the state cookie only before the
  uninstaller and after the setup, and launches the setup all the same.
\<close>

theorem main_local_no_recheck_counterexample:
  "trace (snd (main env_inert (fixture (Decodes (Inr cookie_selected))
          (key_with ''DisplayVersion'' CAP2020_SOFTWARE_CURRENT)
          (key_with ''UninstallString'' UNINSTALL_STRING))))
     = [KeyOpen CAP2020_SOFTWARE,
        Printed (''Looks like the 2020 software is up to date. Let\\'s check your catalog...'' @ [NL]),
        FileOpen STATE_COOKIE,
        Printed (''Looks like you have the catalog installed locally, not on the network.'' @ [NL]),
        Printed (''Uninstalling local catalog.'' @ [NL]),
        KeyOpen CAP2020_CATALOG,
        Exec DSA_EXE [''/removeall'', ''/rootpath'', ''\"'' @ DSA_DIR @ ''\"''],
        Printed (''Clearing out remaining files after uninstall.'' @ [NL]),
        RemoveAll DSA_DIR,
        Printed (''Installing the network catalog...'' @ [NL]),
        Exec PATH_CATALOG [],
        Printed (''Checking the catalog status again...'' @ [NL]),
        FileOpen STATE_COOKIE,
        Printed (''UNSUCCESSFUL: Finish installing the catalog by using the wizard. You can close this window.''
                   @ [NL, NL]),
        Slept 300]
   \<and> fst (GetCatalogStatus env_inert (snd (main env_inert (fixture (Decodes (Inr cookie_selected))
          (key_with ''DisplayVersion'' CAP2020_SOFTWARE_CURRENT)
          (key_with ''UninstallString'' UNINSTALL_STRING)))))
     = (CATALOG_STATE_LOCAL, None)"
proof -
  let ?w = "fixture (Decodes (Inr cookie_selected))
            (key_with ''DisplayVersion'' CAP2020_SOFTWARE_CURRENT)
            (key_with ''UninstallString'' UNINSTALL_STRING)"
  have sel: "demo_selected (GranulePicks cookie_selected)"
    by (simp add: cookie_selected_def demo_pick_def)
  have m: "main env_inert ?w = main_catalog env_inert (snd (GetSoftwareStatus ?w))"
    by (rule main_current [OF current_fixture])
  show ?thesis
    unfolding m using sel
    by (simp add: main_catalog_def main_install_network_def GetSoftwareStatus_def
          GetCatalogStatus_def UninstallCatalog_def CleanCatalog_def InstallNetworkCatalog_def
          CombinedOutput_def ExitWithSuccess_def ExitWithoutSuccess_def ExitWithError_def
          env_inert_def key_with_def Let_def)
qed

end
